theory Spec2Isabelle
  imports Main "HOL-Library.Char_ord" "HOL-Library.List_Lexorder" "HOL-Library.Multiset"
begin

section \<open>The Basic IR\<close>

text \<open>
  The frontend \<^verbatim>\<open>lalcheck/irs/basic/frontends/lal.py\<close> lowers a libadalang syntax tree
  to the Basic IR of \<^verbatim>\<open>lalcheck/irs/basic/tree.py\<close>. The nodes below are the classes of
  \<^verbatim>\<open>tree.py\<close>, with the arguments of their constructors and the registries
  \<^verbatim>\<open>bin_ops\<close> and \<^verbatim>\<open>un_ops\<close> as that file has them: a split has two lists of statements
  (\<^verbatim>\<open>fst_stmts\<close>, \<^verbatim>\<open>snd_stmts\<close>), an assignment has the attributes \<^verbatim>\<open>var\<close> and \<^verbatim>\<open>expr\<close>.
  The frontend also uses \<^verbatim>\<open>irt.Variable\<close>, \<^verbatim>\<open>irt.LabelStmt\<close> and \<^verbatim>\<open>irt.GotoStmt\<close>, which
  \<^verbatim>\<open>tree.py\<close> does not define. The user data of a node (\<^verbatim>\<open>**data\<close>) is kept where the
  frontend reads it back (\<^verbatim>\<open>type_hint\<close>, \<^verbatim>\<open>purpose\<close>) and where it tells two nodes apart
  (\<^verbatim>\<open>orig_node\<close> of a label); Python object identity is not modelled otherwise.
\<close>

subsection \<open>Type hints, values, operator symbols\<close>

text \<open>
  A type hint is a libadalang type declaration. The four standard declarations are the
  ones \<^verbatim>\<open>ExtractionContext.__init__\<close> reads from the dummy unit.
\<close>

datatype tdecl = StdBoolean | StdInteger | UniversalInt | UniversalReal | UserDecl string

text \<open>
  The values of the evaluator (docstrings: \<^verbatim>\<open>int | str\<close> and \<^verbatim>\<open>ConstExprEvaluator.Range\<close>).
  Python 2 has two types of integers: \<^verbatim>\<open>int\<close>, from \<^verbatim>\<open>-sys.maxint - 1\<close> to \<^verbatim>\<open>sys.maxint\<close>,
  and the unbounded \<^verbatim>\<open>long\<close>. The result of \<^verbatim>\<open>int(text)\<close> or of an operation on two
  \<^verbatim>\<open>int\<close> is an \<^verbatim>\<open>int\<close> when it fits and a \<^verbatim>\<open>long\<close> otherwise; an operation with a \<^verbatim>\<open>long\<close>
  operand gives a \<^verbatim>\<open>long\<close>. \<^verbatim>\<open>sys.maxint\<close> is the one of 64-bit CPython 2.
\<close>

datatype pyval = VInt int | VLong int | VStr string | VRange pyval pyval

definition sys_maxint :: int where
  "sys_maxint = 2 ^ 63 - 1"

definition py_number :: "int \<Rightarrow> pyval" where
  "py_number n = (if - sys_maxint - 1 \<le> n \<and> n \<le> sys_maxint then VInt n else VLong n)"

text \<open>\<^verbatim>\<open>isinstance(value, int)\<close>: a \<^verbatim>\<open>long\<close> is no instance of \<^verbatim>\<open>int\<close>.\<close>

fun isinstance_int :: "pyval \<Rightarrow> bool" where
  "isinstance_int (VInt n) = True"
| "isinstance_int v = False"

text \<open>
  Modelled from the spec: the operator symbols of \<^verbatim>\<open>lalcheck.constants.ops\<close> (the module is
  not in the repository snapshot): comparison, arithmetic, logical, address-of,
  dereference, range construction and the two range attributes, one constant per symbol.
  The frontend writes the symbols in capitals (\<^verbatim>\<open>ops.PLUS\<close>, \<^verbatim>\<open>ops.LT\<close>); \<^verbatim>\<open>tree.py\<close> writes
  \<^verbatim>\<open>ops.Plus\<close>, \<^verbatim>\<open>ops.Lt\<close> and so on for the keys of its registries, which are taken to be
  the same symbols.
\<close>

datatype ops = AND | OR | NEQ | EQ | LT | LE | GE | GT | DOT_DOT | PLUS | MINUS
  | NOT | NEG | GET_FIRST | GET_LAST | ADDRESS | DEREF

text \<open>Modelled from the spec: the literals of \<^verbatim>\<open>lalcheck.constants.lits\<close>.\<close>

definition lits_TRUE :: pyval where "lits_TRUE = VStr ''True''"
definition lits_FALSE :: pyval where "lits_FALSE = VStr ''False''"
definition lits_NULL :: pyval where "lits_NULL = VStr ''null''"

datatype operator = Operator ops

fun sym :: "operator \<Rightarrow> ops" where
  "sym (Operator s) = s"

text \<open>
  The registries \<^verbatim>\<open>bin_ops\<close> and \<^verbatim>\<open>un_ops\<close> of \<^verbatim>\<open>tree.py\<close>: eight binary operators and four
  unary ones. There is no entry for \<^verbatim>\<open>ops.AND\<close>, \<^verbatim>\<open>ops.OR\<close>, \<^verbatim>\<open>ops.DOT_DOT\<close>,
  \<^verbatim>\<open>ops.GET_FIRST\<close> and \<^verbatim>\<open>ops.GET_LAST\<close>. \<open>bin_ops_item s\<close> is \<^verbatim>\<open>irt.bin_ops[s]\<close> and
  \<open>un_ops_item s\<close> is \<^verbatim>\<open>irt.un_ops[s]\<close>, which raise \<^verbatim>\<open>KeyError\<close> for a key that is not
  there.
\<close>

definition bin_ops :: "ops \<rightharpoonup> operator" where
  "bin_ops s = (if s \<in> {PLUS, MINUS, LT, LE, EQ, NEQ, GE, GT}
                then Some (Operator s) else None)"

definition un_ops :: "ops \<rightharpoonup> operator" where
  "un_ops s = (if s \<in> {NOT, NEG, ADDRESS, DEREF}
               then Some (Operator s) else None)"

subsection \<open>Variables and expressions\<close>

text \<open>
  Modelled from the spec: \<^verbatim>\<open>irt.Variable\<close> (name, purpose tag, type hint) and the purpose
  tags of \<^verbatim>\<open>lalcheck.irs.basic.purpose\<close>. \<^verbatim>\<open>SyntheticVariable\<close> tags variables,
  \<^verbatim>\<open>DerefCheck\<close> tags assumptions, so each gets its own type.
\<close>

datatype var_purpose = SyntheticVariable

datatype variable = Variable string "var_purpose option" tdecl

datatype expr =
    Identifier variable tdecl
  | Lit pyval tdecl
  | BinExpr expr operator expr tdecl
  | UnExpr operator expr tdecl

fun type_hint :: "expr \<Rightarrow> tdecl" where
  "type_hint (Identifier v h) = h"
| "type_hint (Lit v h) = h"
| "type_hint (BinExpr l bop r h) = h"
| "type_hint (UnExpr uop e h) = h"

datatype assume_purpose = DerefCheck expr

section \<open>The constant expression evaluator\<close>

datatype error =
    NotConstExprError
  | NotImplementedError string
  | KeyError
  | TypeError
  | AttributeError
  | IndexError
  | StopIteration
  | ValueError

definition bin_ops_item :: "ops \<Rightarrow> error + operator" where
  "bin_ops_item s = (case bin_ops s of None \<Rightarrow> Inl KeyError | Some bop \<Rightarrow> Inr bop)"

definition un_ops_item :: "ops \<Rightarrow> error + operator" where
  "un_ops_item s = (case un_ops s of None \<Rightarrow> Inl KeyError | Some uop \<Rightarrow> Inr uop)"

text \<open>
  \<^verbatim>\<open>ConstExprEvaluator.__init__\<close> stores the four standard types. The methods compare values
  with Python 2's operators: two integers compare as numbers, two strs bytewise; for any other
  pair CPython falls back on its default comparison (type names, object addresses), which
  is not code of the repository and is the parameter \<open>cmp_default\<close> (negative, zero or
  positive).
\<close>

record ConstExprEvaluator =
  ev_bool :: tdecl
  ev_int :: tdecl
  ev_universal_int :: tdecl
  ev_universal_real :: tdecl
  cmp_default :: "pyval \<Rightarrow> pyval \<Rightarrow> int"

definition ADA_TRUE :: string where "ADA_TRUE = ''True''"
definition ADA_FALSE :: string where "ADA_FALSE = ''False''"

definition to_bool :: "pyval \<Rightarrow> bool" where
  "to_bool x = (x = VStr ADA_TRUE)"

definition from_bool :: "bool \<Rightarrow> pyval" where
  "from_bool x = (if x then VStr ADA_TRUE else VStr ADA_FALSE)"

definition cmp_int :: "int \<Rightarrow> int \<Rightarrow> int" where
  "cmp_int a b = (if a < b then - 1 else if a = b then 0 else 1)"

fun py_cmp :: "(pyval \<Rightarrow> pyval \<Rightarrow> int) \<Rightarrow> pyval \<Rightarrow> pyval \<Rightarrow> int" where
  "py_cmp d (VInt a) (VInt b) = cmp_int a b"
| "py_cmp d (VInt a) (VLong b) = cmp_int a b"
| "py_cmp d (VLong a) (VInt b) = cmp_int a b"
| "py_cmp d (VLong a) (VLong b) = cmp_int a b"
| "py_cmp d (VStr a) (VStr b) = (if a < b then - 1 else if a = b then 0 else 1)"
| "py_cmp d x y = d x y"

fun py_add :: "pyval \<Rightarrow> pyval \<Rightarrow> error + pyval" where
  "py_add (VInt a) (VInt b) = Inr (py_number (a + b))"
| "py_add (VInt a) (VLong b) = Inr (VLong (a + b))"
| "py_add (VLong a) (VInt b) = Inr (VLong (a + b))"
| "py_add (VLong a) (VLong b) = Inr (VLong (a + b))"
| "py_add (VStr a) (VStr b) = Inr (VStr (a @ b))"
| "py_add x y = Inl TypeError"

fun py_sub :: "pyval \<Rightarrow> pyval \<Rightarrow> error + pyval" where
  "py_sub (VInt a) (VInt b) = Inr (py_number (a - b))"
| "py_sub (VInt a) (VLong b) = Inr (VLong (a - b))"
| "py_sub (VLong a) (VInt b) = Inr (VLong (a - b))"
| "py_sub (VLong a) (VLong b) = Inr (VLong (a - b))"
| "py_sub x y = Inl TypeError"

fun py_neg :: "pyval \<Rightarrow> error + pyval" where
  "py_neg (VInt a) = Inr (py_number (- a))"
| "py_neg (VLong a) = Inr (VLong (- a))"
| "py_neg x = Inl TypeError"

fun py_first :: "pyval \<Rightarrow> error + pyval" where
  "py_first (VRange a b) = Inr a"
| "py_first x = Inl AttributeError"

fun py_last :: "pyval \<Rightarrow> error + pyval" where
  "py_last (VRange a b) = Inr b"
| "py_last x = Inl AttributeError"

text \<open>The tables \<^verbatim>\<open>ConstExprEvaluator.BinOps\<close> and \<^verbatim>\<open>ConstExprEvaluator.UnOps\<close>.\<close>

fun BinOps :: "(pyval \<Rightarrow> pyval \<Rightarrow> int) \<Rightarrow> ops \<rightharpoonup> (pyval \<Rightarrow> pyval \<Rightarrow> error + pyval)" where
  "BinOps d AND = Some (\<lambda>x y. Inr (from_bool (to_bool x \<and> to_bool y)))"
| "BinOps d OR = Some (\<lambda>x y. Inr (from_bool (to_bool x \<or> to_bool y)))"
| "BinOps d NEQ = Some (\<lambda>x y. Inr (from_bool (py_cmp d x y \<noteq> 0)))"
| "BinOps d EQ = Some (\<lambda>x y. Inr (from_bool (py_cmp d x y = 0)))"
| "BinOps d LT = Some (\<lambda>x y. Inr (from_bool (py_cmp d x y < 0)))"
| "BinOps d LE = Some (\<lambda>x y. Inr (from_bool (py_cmp d x y \<le> 0)))"
| "BinOps d GE = Some (\<lambda>x y. Inr (from_bool (py_cmp d x y \<ge> 0)))"
| "BinOps d GT = Some (\<lambda>x y. Inr (from_bool (py_cmp d x y > 0)))"
| "BinOps d DOT_DOT = Some (\<lambda>x y. Inr (VRange x y))"
| "BinOps d PLUS = Some py_add"
| "BinOps d MINUS = Some py_sub"
| "BinOps d s = None"

fun UnOps :: "ops \<rightharpoonup> (pyval \<Rightarrow> error + pyval)" where
  "UnOps NOT = Some (\<lambda>x. Inr (from_bool (\<not> to_bool x)))"
| "UnOps NEG = Some py_neg"
| "UnOps GET_FIRST = Some py_first"
| "UnOps GET_LAST = Some py_last"
| "UnOps s = None"

text \<open>
  \<^verbatim>\<open>except KeyError: raise NotConstExprError\<close> around the body of \<^verbatim>\<open>visit_binexpr\<close> and
  \<^verbatim>\<open>visit_unexpr\<close>.
\<close>

fun except_KeyError :: "error + 'a \<Rightarrow> error + 'a" where
  "except_KeyError (Inl KeyError) = Inl NotConstExprError"
| "except_KeyError r = r"

text \<open>
  \<^verbatim>\<open>ConstExprEvaluator.visit\<close> with \<^verbatim>\<open>visit_ident\<close>, \<^verbatim>\<open>visit_binexpr\<close>, \<^verbatim>\<open>visit_unexpr\<close> and
  \<^verbatim>\<open>visit_lit\<close>. The table lookup comes first, then the left operand, then the right one,
  then the rule. The \<^verbatim>\<open>memoize\<close> cache returns what the method returned before for the same
  node, so it does not show in the result.
\<close>

fun visit :: "ConstExprEvaluator \<Rightarrow> expr \<Rightarrow> error + pyval" where
  "visit ev (Identifier v h) = Inl NotConstExprError"
| "visit ev (BinExpr lhs bin_op rhs h) = except_KeyError
     (case BinOps (cmp_default ev) (sym bin_op) of
        None \<Rightarrow> Inl KeyError
      | Some opf \<Rightarrow>
          (case visit ev lhs of
             Inl e \<Rightarrow> Inl e
           | Inr x \<Rightarrow> (case visit ev rhs of Inl e \<Rightarrow> Inl e | Inr y \<Rightarrow> opf x y)))"
| "visit ev (UnExpr un_op e h) = except_KeyError
     (case UnOps (sym un_op) of
        None \<Rightarrow> Inl KeyError
      | Some opf \<Rightarrow> (case visit ev e of Inl err \<Rightarrow> Inl err | Inr x \<Rightarrow> opf x))"
| "visit ev (Lit v h) = Inr v"

text \<open>
  \<^verbatim>\<open>ConstExprEvaluator.eval\<close>: the result of \<^verbatim>\<open>visit\<close>, unless it is \<^verbatim>\<open>None\<close>; no value of
  \<^typ>\<open>pyval\<close> is \<^verbatim>\<open>None\<close>.
\<close>

definition eval :: "ConstExprEvaluator \<Rightarrow> expr \<Rightarrow> error + pyval" where
  "eval ev e = visit ev e"

subsection \<open>Statements\<close>

text \<open>
  A libadalang node is told from another by its identity; the syntax trees below carry a
  node number where the frontend compares nodes or uses them as dictionary keys. A label
  declaration is its node and the text of its name.
\<close>

type_synonym node_id = nat

type_synonym label_decl = "node_id \<times> string"

text \<open>
  Modelled from the spec: \<^verbatim>\<open>irt.LabelStmt\<close> and \<^verbatim>\<open>irt.GotoStmt\<close>. A label node has a name
  and, for a label of the source, the declaration it comes from (\<^verbatim>\<open>orig_node\<close>); a goto
  refers to the label node.

  The other statements are the classes of \<^verbatim>\<open>tree.py\<close>: \<open>AssignStmt var expr\<close>,
  \<open>SplitStmt fst_stmts snd_stmts\<close>, \<open>LoopStmt stmts\<close>, \<open>ReadStmt var\<close>, \<open>UseStmt var\<close> and
  \<open>AssumeStmt expr\<close> with its \<^verbatim>\<open>purpose\<close>.
\<close>

datatype label = Label string "label_decl option"

datatype stmt =
    AssignStmt expr expr
  | SplitStmt "stmt list" "stmt list"
  | LoopStmt "stmt list"
  | ReadStmt expr
  | UseStmt expr
  | AssumeStmt expr "assume_purpose option"
  | GotoStmt label
  | LabelStmt label

datatype program = Program "stmt list"

section \<open>The syntax tree the frontend reads\<close>

text \<open>
  The libadalang tree is given by the node kinds the frontend tells apart
  (\<^verbatim>\<open>is_a\<close>), the children it reads and the properties it asks for: the type of an
  expression (\<^verbatim>\<open>p_expression_type\<close>), the declaration an identifier refers to
  (\<^verbatim>\<open>p_referenced_decl\<close>) and the text of a node. A node of any other kind is an
  \<open>Other\<close> node with its text and the printed form of its class.
\<close>

datatype lal_op =
    OpAbs | OpAnd | OpAndThen | OpConcat | OpDiv | OpDoubleDot | OpEq | OpGt | OpGte
  | OpIn | OpLt | OpLte | OpMinus | OpMod | OpMult | OpNeq | OpNot | OpNotIn | OpOr
  | OpOrElse | OpPlus | OpPow | OpRem | OpXor

datatype lal_expr =
    lal_ParenExpr lal_expr
  | lal_BinOp lal_expr lal_op lal_expr tdecl
  | lal_UnOp lal_op lal_expr tdecl
  | lal_IfExpr lal_expr lal_expr lal_expr tdecl
  | lal_Identifier string ref_decl tdecl
  | lal_IntLiteral string tdecl
  | lal_NullLiteral tdecl
  | lal_ExplicitDeref lal_expr tdecl
  | lal_AttributeRef lal_expr string tdecl
  | lal_OtherExpr string string tdecl
and ref_decl =
    ref_ObjectDecl node_id
  | ref_EnumLiteralDecl tdecl
  | ref_NumberDecl lal_expr
  | ref_TypeDecl type_def
  | ref_Other
and type_def =
    SignedIntTypeDef lal_expr
  | OtherTypeDef

text \<open>
  \<open>lal_IfExpr c a b t\<close> is \<^verbatim>\<open>f_cond_expr\<close>, \<^verbatim>\<open>f_then_expr\<close>, \<^verbatim>\<open>f_else_expr\<close> and the type;
  \<open>ref_EnumLiteralDecl t\<close> carries the type declaration \<^verbatim>\<open>ref.parent.parent.parent\<close>;
  \<open>ref_NumberDecl e\<close> carries \<^verbatim>\<open>ref.f_expr\<close>; \<open>SignedIntTypeDef e\<close> carries
  \<^verbatim>\<open>f_range.f_range\<close>. The type of a parenthesised expression is the type of the
  expression inside.
\<close>

fun p_expression_type :: "lal_expr \<Rightarrow> tdecl" where
  "p_expression_type (lal_ParenExpr e) = p_expression_type e"
| "p_expression_type (lal_BinOp l bop r t) = t"
| "p_expression_type (lal_UnOp uop e t) = t"
| "p_expression_type (lal_IfExpr c a b t) = t"
| "p_expression_type (lal_Identifier txt ref t) = t"
| "p_expression_type (lal_IntLiteral txt t) = t"
| "p_expression_type (lal_NullLiteral t) = t"
| "p_expression_type (lal_ExplicitDeref e t) = t"
| "p_expression_type (lal_AttributeRef e a t) = t"
| "p_expression_type (lal_OtherExpr txt cls t) = t"

text \<open>\<^verbatim>\<open>p_bool_type\<close> of any node is the standard boolean type.\<close>

definition p_bool_type :: tdecl where
  "p_bool_type = StdBoolean"

datatype choice = OthersDesignator | Choice lal_expr

text \<open>
  The target of an assignment: the declaration its name refers to, its text and its type.
  A loop statement carries its node; a named exit carries the node of the loop its name
  resolves to (\<^verbatim>\<open>p_referenced_decl.parent.f_stmt\<close>). \<open>lal_IfStmt\<close> has the condition, the
  then part, the elsif alternatives and the else part.
\<close>

datatype lal_stmt =
    lal_AssignStmt node_id string tdecl lal_expr
  | lal_IfStmt lal_expr "lal_stmt list" "(lal_expr \<times> lal_stmt list) list" "lal_stmt list"
  | lal_CaseStmt lal_expr "(choice list \<times> lal_stmt list) list"
  | lal_LoopStmt node_id "lal_stmt list"
  | lal_WhileLoopStmt node_id lal_expr "lal_stmt list"
  | lal_ForLoopStmt node_id "lal_stmt list"
  | lal_Label label_decl
  | lal_GotoStmt label_decl
  | lal_NamedStmt lal_stmt
  | lal_ExitStmt "node_id option" "lal_expr option"
  | lal_ExceptionHandler "lal_stmt list"
  | lal_OtherStmt string string

datatype lal_decl =
    lal_TypeDecl
  | lal_NumberDecl
  | lal_ObjectDecl node_id "string list" tdecl "lal_expr option"
  | lal_OtherDecl string string

text \<open>
  A subprogram found by \<^verbatim>\<open>findall((lal.SubpBody, lal.ExprFunction))\<close>. A body has its
  declarations, its statements and the label declarations \<^verbatim>\<open>findall(lal.LabelDecl)\<close>
  returns for it; an expression function has neither \<^verbatim>\<open>f_decls\<close> nor \<^verbatim>\<open>f_stmts\<close>.
\<close>

datatype lal_subp =
    lal_SubpBody "lal_decl list" "lal_stmt list" "label_decl list"
  | lal_ExprFunction lal_expr "label_decl list"

section \<open>The lowering\<close>

subsection \<open>Python helpers\<close>

text \<open>The decimal digits of a natural number, as \<^verbatim>\<open>format\<close> prints it.\<close>

definition digit_char :: "nat \<Rightarrow> char" where
  "digit_char d = ''0123456789'' ! d"

function str_nat :: "nat \<Rightarrow> string" where
  "str_nat n = (if n < 10 then [digit_char n] else str_nat (n div 10) @ [digit_char (n mod 10)])"
  by pat_completeness auto
termination
  by (relation "measure id") auto

declare str_nat.simps [simp del]

text \<open>
  \<^verbatim>\<open>int(text)\<close> on the text of an integer literal token (digits, underscores, a base, an
  exponent): Python reads a run of decimal digits, to an \<^verbatim>\<open>int\<close> or to a \<^verbatim>\<open>long\<close>, and
  raises \<^verbatim>\<open>ValueError\<close> on anything else.
\<close>

definition digit_val :: "char \<Rightarrow> nat option" where
  "digit_val c = map_of (zip ''0123456789'' [0, 1, 2, 3, 4, 5, 6, 7, 8, 9]) c"

definition py_int :: "string \<Rightarrow> error + pyval" where
  "py_int txt =
     (if txt \<noteq> [] \<and> list_all (\<lambda>c. digit_val c \<noteq> None) txt
      then Inr (py_number (int (foldl (\<lambda>a c. 10 * a + the (digit_val c)) 0 txt)))
      else Inl ValueError)"

text \<open>\<^verbatim>\<open>reduce(f, xs)\<close> of Python 2, without an initial value.\<close>

fun reduce :: "('a \<Rightarrow> 'a \<Rightarrow> 'a) \<Rightarrow> 'a list \<Rightarrow> error + 'a" where
  "reduce f [] = Inl TypeError"
| "reduce f (x # xs) = Inr (foldl f x xs)"

subsection \<open>The state of one lowering\<close>

text \<open>
  \<^verbatim>\<open>_gen_ir\<close> keeps the dictionary \<^verbatim>\<open>var_decls\<close>, the counter \<^verbatim>\<open>tmp_vars\<close> and the list
  \<^verbatim>\<open>loop_stack\<close>, which its inner functions update; they are the state the functions below
  pass along. An exception ends \<^verbatim>\<open>_gen_ir\<close>, so a failure carries no state.

  Modelled from the spec: \<^verbatim>\<open>KeyCounter\<close> of \<^verbatim>\<open>lalcheck.utils\<close>, one counter per base name
  that only grows; \<^verbatim>\<open>get_incr\<close> gives the count of the name and adds one to it.
\<close>

record lowering =
  var_decls :: "(node_id \<times> string) \<rightharpoonup> variable"
  tmp_vars :: "string \<Rightarrow> nat"
  loop_stack :: "(node_id \<times> label) list"

definition get_incr :: "string \<Rightarrow> lowering \<Rightarrow> nat \<times> lowering" where
  "get_incr nm st = (tmp_vars st nm, st\<lparr>tmp_vars := (tmp_vars st)(nm := Suc (tmp_vars st nm))\<rparr>)"

definition fresh_name :: "string \<Rightarrow> lowering \<Rightarrow> string \<times> lowering" where
  "fresh_name nm st = (case get_incr nm st of (n, st') \<Rightarrow> (nm @ str_nat n, st'))"

text \<open>
  The tables \<^verbatim>\<open>_lal_op_type_2_symbol\<close> and \<^verbatim>\<open>_attr_2_unop\<close>. Each entry is written as a lookup
  in \<^verbatim>\<open>irt.bin_ops\<close> or \<^verbatim>\<open>irt.un_ops\<close>. The registries of \<^verbatim>\<open>tree.py\<close> have no operator for
  \<^verbatim>\<open>ops.AND\<close>, \<^verbatim>\<open>ops.OR\<close>, \<^verbatim>\<open>ops.DOT_DOT\<close>, \<^verbatim>\<open>ops.GET_FIRST\<close> and \<^verbatim>\<open>ops.GET_LAST\<close>, so
  these lookups raise \<^verbatim>\<open>KeyError\<close>. Python runs them when the module is loaded; here a
  table has the entries whose lookup gives an operator, and the \<^verbatim>\<open>KeyError\<close> is raised
  where the lowering asks the table for such an operator.
\<close>

definition lal_op_type_2_symbol_entries :: "((lal_op \<times> nat) \<times> operator option) list" where
  "lal_op_type_2_symbol_entries =
     [((OpLt, 2), bin_ops LT), ((OpLte, 2), bin_ops LE), ((OpEq, 2), bin_ops EQ),
      ((OpNeq, 2), bin_ops NEQ), ((OpGte, 2), bin_ops GE), ((OpGt, 2), bin_ops GT),
      ((OpAnd, 2), bin_ops AND), ((OpOr, 2), bin_ops OR), ((OpPlus, 2), bin_ops PLUS),
      ((OpMinus, 2), bin_ops MINUS), ((OpDoubleDot, 2), bin_ops DOT_DOT),
      ((OpMinus, 1), un_ops NEG), ((OpNot, 1), un_ops NOT)]"

definition lal_op_type_2_symbol :: "lal_op \<times> nat \<rightharpoonup> operator" where
  "lal_op_type_2_symbol key =
     (case map_of lal_op_type_2_symbol_entries key of None \<Rightarrow> None | Some entry \<Rightarrow> entry)"

definition attr_2_unop_entries :: "(string \<times> operator option) list" where
  "attr_2_unop_entries =
     [(''Access'', un_ops ADDRESS), (''First'', un_ops GET_FIRST), (''Last'', un_ops GET_LAST)]"

definition attr_2_unop :: "string \<rightharpoonup> operator" where
  "attr_2_unop key =
     (case map_of attr_2_unop_entries key of None \<Rightarrow> None | Some entry \<Rightarrow> entry)"

definition transform_operator :: "lal_op \<Rightarrow> nat \<Rightarrow> error + operator" where
  "transform_operator lal_op arity =
     (case lal_op_type_2_symbol (lal_op, arity) of None \<Rightarrow> Inl KeyError | Some bop \<Rightarrow> Inr bop)"

text \<open>
  \<^verbatim>\<open>unimplemented(node)\<close> raises \<^verbatim>\<open>NotImplementedError\<close> with the text of the node and its
  class in the message.
\<close>

definition cls_repr :: "string \<Rightarrow> string" where
  "cls_repr cls = ''<class '' @ [CHR 0x27] @ ''libadalang.'' @ cls @ [CHR 0x27] @ ''>''"

definition unimplemented :: "string \<Rightarrow> string \<Rightarrow> error" where
  "unimplemented txt cls =
     NotImplementedError (''Cannot transform '' @ [CHR 0x22] @ txt @ [CHR 0x22] @ '' ('' @ cls @ '')'')"

subsection \<open>Expressions\<close>

text \<open>
  \<^verbatim>\<open>SplitStmt.__init__(self, fst_stmts, snd_stmts, **data)\<close> of \<^verbatim>\<open>tree.py\<close> takes two lists of
  statements. The frontend calls \<^verbatim>\<open>irt.SplitStmt\<close> with one positional argument, the list of
  the branches (in \<^verbatim>\<open>gen_split_stmt\<close> and for a case statement), and with keyword arguments
  that go to \<^verbatim>\<open>**data\<close>: Python raises \<^verbatim>\<open>TypeError\<close> for the missing argument
  \<^verbatim>\<open>snd_stmts\<close>, whatever the list holds. \<open>SplitStmt_call branches\<close> is that call.
\<close>

definition SplitStmt_call :: "stmt list list \<Rightarrow> error + stmt" where
  "SplitStmt_call branches = Inl TypeError"

text \<open>
  \<^verbatim>\<open>transform_expr\<close>, \<^verbatim>\<open>gen_split_stmt\<close> and \<^verbatim>\<open>transform_short_circuit_ops\<close>. Each returns
  what the Python function returns, with the state after it. Python evaluates the
  arguments of a call before the call: in \<^verbatim>\<open>transform_short_circuit_ops\<close> the inner
  \<^verbatim>\<open>gen_split_stmt\<close> (the right operand) runs before the outer one transforms the left
  operand.
\<close>

definition lits_assign :: "expr \<Rightarrow> tdecl \<Rightarrow> pyval \<Rightarrow> stmt" where
  "lits_assign res bool_hint literal = AssignStmt res (Lit literal bool_hint)"

fun is_short_circuit :: "lal_op \<Rightarrow> bool" where
  "is_short_circuit OpAndThen = True"
| "is_short_circuit OpOrElse = True"
| "is_short_circuit bop = False"

fun transform_expr :: "lal_expr \<Rightarrow> lowering \<Rightarrow> error + ((stmt list \<times> expr) \<times> lowering)"
and gen_split_stmt ::
  "lal_expr \<Rightarrow> stmt list \<Rightarrow> stmt list \<Rightarrow> lowering \<Rightarrow> error + (stmt list \<times> lowering)"
and transform_short_circuit_ops ::
  "lal_expr \<Rightarrow> lowering \<Rightarrow> error + ((stmt list \<times> expr) \<times> lowering)"
where
  "transform_expr (lal_ParenExpr e) st = transform_expr e st"
| "transform_expr (lal_BinOp l bop r t) st =
     (if is_short_circuit bop then transform_short_circuit_ops (lal_BinOp l bop r t) st
      else
        (case transform_expr l st of
           Inl err \<Rightarrow> Inl err
         | Inr ((lhs_pre_stmts, lhs), st1) \<Rightarrow>
             (case transform_expr r st1 of
                Inl err \<Rightarrow> Inl err
              | Inr ((rhs_pre_stmts, rhs), st2) \<Rightarrow>
                  (case transform_operator bop 2 of
                     Inl err \<Rightarrow> Inl err
                   | Inr irop \<Rightarrow>
                       Inr ((lhs_pre_stmts @ rhs_pre_stmts, BinExpr lhs irop rhs t), st2)))))"
| "transform_expr (lal_UnOp uop e t) st =
     (case transform_expr e st of
        Inl err \<Rightarrow> Inl err
      | Inr ((inner_pre_stmts, inner_expr), st1) \<Rightarrow>
          (case transform_operator uop 1 of
             Inl err \<Rightarrow> Inl err
           | Inr irop \<Rightarrow> Inr ((inner_pre_stmts, UnExpr irop inner_expr t), st1)))"
| "transform_expr (lal_IfExpr c a b t) st =
     (case fresh_name ''tmp'' st of
        (nm, st1) \<Rightarrow>
          (let tmp = Identifier (Variable nm (Some SyntheticVariable) t) t in
           case transform_expr a st1 of
             Inl err \<Rightarrow> Inl err
           | Inr ((then_stmts, then_expr), st2) \<Rightarrow>
               (case transform_expr b st2 of
                  Inl err \<Rightarrow> Inl err
                | Inr ((else_stmts, else_expr), st3) \<Rightarrow>
                    (case gen_split_stmt c
                            (then_stmts @ [AssignStmt tmp then_expr])
                            (else_stmts @ [AssignStmt tmp else_expr]) st3 of
                       Inl err \<Rightarrow> Inl err
                     | Inr (stmts, st4) \<Rightarrow> Inr ((stmts, tmp), st4)))))"
| "transform_expr (lal_Identifier txt (ref_ObjectDecl d) t) st =
     (case var_decls st (d, txt) of
        None \<Rightarrow> Inl KeyError
      | Some v \<Rightarrow> Inr (([], Identifier v t), st))"
| "transform_expr (lal_Identifier txt (ref_EnumLiteralDecl td) t) st =
     Inr (([], Lit (VStr txt) td), st)"
| "transform_expr (lal_Identifier txt (ref_NumberDecl e) t) st = transform_expr e st"
| "transform_expr (lal_Identifier txt (ref_TypeDecl (SignedIntTypeDef rng)) t) st =
     transform_expr rng st"
| "transform_expr (lal_Identifier txt (ref_TypeDecl OtherTypeDef) t) st =
     Inl (unimplemented txt (cls_repr ''Identifier''))"
| "transform_expr (lal_Identifier txt ref_Other t) st =
     Inl (unimplemented txt (cls_repr ''Identifier''))"
| "transform_expr (lal_IntLiteral txt t) st =
     (case py_int txt of
        Inl err \<Rightarrow> Inl err
      | Inr n \<Rightarrow> Inr (([], Lit n t), st))"
| "transform_expr (lal_NullLiteral t) st = Inr (([], Lit lits_NULL t), st)"
| "transform_expr (lal_ExplicitDeref p t) st =
     (case transform_expr p st of
        Inl err \<Rightarrow> Inl err
      | Inr ((prefix_pre_stmts, pre), st1) \<Rightarrow>
          (case bin_ops_item NEQ of
             Inl err \<Rightarrow> Inl err
           | Inr neq \<Rightarrow>
               (let assumed_expr =
                      BinExpr pre neq (Lit lits_NULL (p_expression_type p)) p_bool_type
                in case un_ops_item DEREF of
                     Inl err \<Rightarrow> Inl err
                   | Inr deref \<Rightarrow>
                       Inr ((prefix_pre_stmts @
                               [AssumeStmt assumed_expr (Some (DerefCheck pre))],
                             UnExpr deref pre t), st1))))"
| "transform_expr (lal_AttributeRef p attr t) st =
     (case transform_expr p st of
        Inl err \<Rightarrow> Inl err
      | Inr ((prefix_pre_stmts, pre), st1) \<Rightarrow>
          (case attr_2_unop attr of
             None \<Rightarrow> Inl KeyError
           | Some irop \<Rightarrow> Inr ((prefix_pre_stmts, UnExpr irop pre t), st1)))"
| "transform_expr (lal_OtherExpr txt cls t) st = Inl (unimplemented txt cls)"
| "gen_split_stmt cond then_stmts else_stmts st =
     (case transform_expr cond st of
        Inl err \<Rightarrow> Inl err
      | Inr ((cond_pre_stmts, c), st1) \<Rightarrow>
          (case un_ops_item NOT of
             Inl err \<Rightarrow> Inl err
           | Inr not_op \<Rightarrow>
               (let not_cond = UnExpr not_op c (type_hint c);
                    assume_cond = AssumeStmt c None;
                    assume_not_cond = AssumeStmt not_cond None
                in case SplitStmt_call
                          [[assume_cond] @ then_stmts, [assume_not_cond] @ else_stmts] of
                     Inl err \<Rightarrow> Inl err
                   | Inr split \<Rightarrow> Inr (cond_pre_stmts @ [split], st1))))"
| "transform_short_circuit_ops (lal_BinOp l bop r bool_hint) st =
     (case fresh_name ''tmp'' st of
        (nm, st1) \<Rightarrow>
          (let res = Identifier (Variable nm (Some SyntheticVariable) bool_hint) bool_hint;
               res_eq_true = lits_assign res bool_hint lits_TRUE;
               res_eq_false = lits_assign res bool_hint lits_FALSE
           in if bop = OpAndThen then
                (case gen_split_stmt r [res_eq_true] [res_eq_false] st1 of
                   Inl err \<Rightarrow> Inl err
                 | Inr (inner, st2) \<Rightarrow>
                     (case gen_split_stmt l inner [res_eq_false] st2 of
                        Inl err \<Rightarrow> Inl err
                      | Inr (res_stmts, st3) \<Rightarrow> Inr ((res_stmts, res), st3)))
              else
                (case gen_split_stmt r [res_eq_true] [res_eq_false] st1 of
                   Inl err \<Rightarrow> Inl err
                 | Inr (inner, st2) \<Rightarrow>
                     (case gen_split_stmt l [res_eq_true] inner st2 of
                        Inl err \<Rightarrow> Inl err
                      | Inr (res_stmts, st3) \<Rightarrow> Inr ((res_stmts, res), st3)))))"
| "transform_short_circuit_ops e st = Inl AttributeError"

subsection \<open>Case conditions\<close>

text \<open>A list comprehension whose body can raise: the first exception ends it.\<close>

fun map_err :: "('a \<Rightarrow> error + 'b) \<Rightarrow> 'a list \<Rightarrow> error + 'b list" where
  "map_err f [] = Inr []"
| "map_err f (x # xs) =
     (case f x of
        Inl err \<Rightarrow> Inl err
      | Inr y \<Rightarrow> (case map_err f xs of Inl err \<Rightarrow> Inl err | Inr ys \<Rightarrow> Inr (y # ys)))"

record ExtractionContext =
  evaluator :: ConstExprEvaluator

definition binexpr_builder :: "operator \<Rightarrow> tdecl \<Rightarrow> expr \<Rightarrow> expr \<Rightarrow> expr" where
  "binexpr_builder bop hint lhs rhs = BinExpr lhs bop rhs hint"

text \<open>
  \<^verbatim>\<open>gen_case_condition\<close> with its inner \<^verbatim>\<open>gen_lit\<close> and \<^verbatim>\<open>gen_single\<close>. The arguments of
  \<^verbatim>\<open>irt.BinExpr\<close> are evaluated from left to right: for a range, the lookup of \<^verbatim>\<open>ops.GE\<close>
  and the literal of the first bound, then the lookup of \<^verbatim>\<open>ops.AND\<close>, then the lookup of
  \<^verbatim>\<open>ops.LE\<close> and the literal of the last bound. A range whose bounds are not both \<^verbatim>\<open>int\<close>
  falls through to the \<^verbatim>\<open>raise\<close> at the end of \<^verbatim>\<open>gen_single\<close>.
\<close>

definition gen_lit :: "ExtractionContext \<Rightarrow> pyval \<Rightarrow> error + expr" where
  "gen_lit ctx v =
     (if isinstance_int v then Inr (Lit v (ev_int (evaluator ctx)))
      else Inl (NotImplementedError ''Cannot transform literal''))"

fun gen_single :: "ExtractionContext \<Rightarrow> expr \<Rightarrow> pyval \<Rightarrow> error + expr" where
  "gen_single ctx e (VRange lo hi) =
     (if isinstance_int lo \<and> isinstance_int hi then
        (case bin_ops_item GE of
           Inl err \<Rightarrow> Inl err
         | Inr ge \<Rightarrow>
             (case gen_lit ctx lo of
                Inl err \<Rightarrow> Inl err
              | Inr lit_first \<Rightarrow>
                  (case bin_ops_item AND of
                     Inl err \<Rightarrow> Inl err
                   | Inr and_op \<Rightarrow>
                       (case bin_ops_item LE of
                          Inl err \<Rightarrow> Inl err
                        | Inr le \<Rightarrow>
                            (case gen_lit ctx hi of
                               Inl err \<Rightarrow> Inl err
                             | Inr lit_last \<Rightarrow>
                                 Inr (BinExpr
                                        (BinExpr e ge lit_first (ev_bool (evaluator ctx)))
                                        and_op
                                        (BinExpr e le lit_last (ev_bool (evaluator ctx)))
                                        (ev_bool (evaluator ctx))))))))
      else Inl (NotImplementedError ''Cannot transform when condition''))"
| "gen_single ctx e v =
     (if isinstance_int v then
        (case bin_ops_item EQ of
           Inl err \<Rightarrow> Inl err
         | Inr eq \<Rightarrow>
             (case gen_lit ctx v of
                Inl err \<Rightarrow> Inl err
              | Inr lit \<Rightarrow> Inr (BinExpr e eq lit (ev_bool (evaluator ctx)))))
      else Inl (NotImplementedError ''Cannot transform when condition''))"

definition gen_case_condition :: "ExtractionContext \<Rightarrow> expr \<Rightarrow> pyval list \<Rightarrow> error + expr" where
  "gen_case_condition ctx e vals =
     (case map_err (gen_single ctx e) vals of
        Inl err \<Rightarrow> Inl err
      | Inr conditions \<Rightarrow>
          if length conditions > 1
          then (case bin_ops_item OR of
                  Inl err \<Rightarrow> Inl err
                | Inr or_op \<Rightarrow>
                    reduce (binexpr_builder or_op (ev_bool (evaluator ctx))) conditions)
          else (case conditions of [] \<Rightarrow> Inl IndexError | c # cs \<Rightarrow> Inr c))"

subsection \<open>Statements\<close>

text \<open>
  The choices of one alternative:
  \<^verbatim>\<open>[ctx.evaluator.eval(transform_expr(choice)[1]) for choice in alt.f_choices]\<close>. An
  \<^verbatim>\<open>others\<close> designator is no expression node and would reach \<^verbatim>\<open>unimplemented\<close>.
\<close>

fun eval_choices ::
  "ExtractionContext \<Rightarrow> choice list \<Rightarrow> lowering \<Rightarrow> error + (pyval list \<times> lowering)" where
  "eval_choices ctx [] st = Inr ([], st)"
| "eval_choices ctx (OthersDesignator # cs) st =
     Inl (unimplemented ''others'' (cls_repr ''OthersDesignator''))"
| "eval_choices ctx (Choice e # cs) st =
     (case transform_expr e st of
        Inl err \<Rightarrow> Inl err
      | Inr ((pre, ire), st1) \<Rightarrow>
          (case eval (evaluator ctx) ire of
             Inl err \<Rightarrow> Inl err
           | Inr v \<Rightarrow>
               (case eval_choices ctx cs st1 of
                  Inl err \<Rightarrow> Inl err
                | Inr (vs, st2) \<Rightarrow> Inr (v # vs, st2))))"

definition has_others :: "choice list \<Rightarrow> bool" where
  "has_others choices = list_ex (\<lambda>c. c = OthersDesignator) choices"

text \<open>\<^verbatim>\<open>loop_stack[-1]\<close>, \<^verbatim>\<open>loop_stack.pop()\<close> and the search of a named loop with \<^verbatim>\<open>next\<close>.\<close>

definition loop_stack_top :: "lowering \<Rightarrow> error + (node_id \<times> label)" where
  "loop_stack_top st = (if loop_stack st = [] then Inl IndexError else Inr (last (loop_stack st)))"

definition loop_stack_pop :: "lowering \<Rightarrow> error + lowering" where
  "loop_stack_pop st =
     (if loop_stack st = [] then Inl IndexError
      else Inr (st\<lparr>loop_stack := butlast (loop_stack st)\<rparr>))"

definition loop_stack_append :: "node_id \<times> label \<Rightarrow> lowering \<Rightarrow> lowering" where
  "loop_stack_append entry st = st\<lparr>loop_stack := loop_stack st @ [entry]\<rparr>"

definition loop_stack_next :: "node_id \<Rightarrow> lowering \<Rightarrow> error + (node_id \<times> label)" where
  "loop_stack_next ref_loop st =
     (case find (\<lambda>loop. fst loop = ref_loop) (loop_stack st) of
        None \<Rightarrow> Inl StopIteration
      | Some loop \<Rightarrow> Inr loop)"

text \<open>
  \<^verbatim>\<open>transform_stmt\<close> and \<^verbatim>\<open>transform_stmts\<close>. \<open>transform_case_alts\<close> is the comprehension
  \<^verbatim>\<open>case_alts\<close> of the case statement (the alternatives without \<^verbatim>\<open>others\<close>: the values of
  the choices, then the statements), \<open>transform_others_alts\<close> the comprehension
  \<^verbatim>\<open>others_potential_stmts\<close>. \<open>labels\<close> is the dictionary of the labels made before any
  statement is transformed.
\<close>

fun transform_stmt ::
  "ExtractionContext \<Rightarrow> (label_decl \<rightharpoonup> label) \<Rightarrow> lal_stmt \<Rightarrow> lowering
     \<Rightarrow> error + (stmt list \<times> lowering)"
and transform_stmts ::
  "ExtractionContext \<Rightarrow> (label_decl \<rightharpoonup> label) \<Rightarrow> lal_stmt list \<Rightarrow> lowering
     \<Rightarrow> error + (stmt list \<times> lowering)"
and transform_case_alts ::
  "ExtractionContext \<Rightarrow> (label_decl \<rightharpoonup> label) \<Rightarrow> (choice list \<times> lal_stmt list) list
     \<Rightarrow> lowering \<Rightarrow> error + ((pyval list \<times> stmt list) list \<times> lowering)"
and transform_others_alts ::
  "ExtractionContext \<Rightarrow> (label_decl \<rightharpoonup> label) \<Rightarrow> (choice list \<times> lal_stmt list) list
     \<Rightarrow> lowering \<Rightarrow> error + (stmt list list \<times> lowering)"
where
  "transform_stmt ctx labels (lal_AssignStmt d txt t e) st =
     (case transform_expr e st of
        Inl err \<Rightarrow> Inl err
      | Inr ((expr_pre_stmts, ire), st1) \<Rightarrow>
          (case var_decls st1 (d, txt) of
             None \<Rightarrow> Inl KeyError
           | Some v \<Rightarrow> Inr (expr_pre_stmts @ [AssignStmt (Identifier v t) ire], st1)))"
| "transform_stmt ctx labels (lal_IfStmt c then_stmts alternatives else_stmts) st =
     (case transform_stmts ctx labels then_stmts st of
        Inl err \<Rightarrow> Inl err
      | Inr (ir_then, st1) \<Rightarrow>
          (case transform_stmts ctx labels else_stmts st1 of
             Inl err \<Rightarrow> Inl err
           | Inr (ir_else, st2) \<Rightarrow> gen_split_stmt c ir_then ir_else st2))"
| "transform_stmt ctx labels (lal_CaseStmt sel alts) st =
     (case transform_expr sel st of
        Inl err \<Rightarrow> Inl err
      | Inr ((case_pre_stmts, selector), st1) \<Rightarrow>
          (case transform_case_alts ctx labels alts st1 of
             Inl err \<Rightarrow> Inl err
           | Inr (case_alts, st2) \<Rightarrow>
               (case transform_others_alts ctx labels alts st2 of
                  Inl err \<Rightarrow> Inl err
                | Inr (others_potential_stmts, st3) \<Rightarrow>
                    (case map_err (\<lambda>(choices, stmts). gen_case_condition ctx selector choices)
                            case_alts of
                       Inl err \<Rightarrow> Inl err
                     | Inr alts_conditions \<Rightarrow>
                         (case un_ops_item NOT of
                            Inl err \<Rightarrow> Inl err
                          | Inr not_op \<Rightarrow>
                              (case bin_ops_item OR of
                                 Inl err \<Rightarrow> Inl err
                               | Inr or_op \<Rightarrow>
                                   (case reduce (binexpr_builder or_op (ev_bool (evaluator ctx)))
                                           alts_conditions of
                                      Inl err \<Rightarrow> Inl err
                                    | Inr disjunction \<Rightarrow>
                                        (let others_condition =
                                               UnExpr not_op disjunction (ev_bool (evaluator ctx));
                                             branches =
                                               map (\<lambda>(cond, (choices, stmts)).
                                                      [AssumeStmt cond None] @ stmts)
                                                 (zip alts_conditions case_alts) @
                                               map (\<lambda>others_stmts.
                                                      [AssumeStmt others_condition None]
                                                      @ others_stmts)
                                                 others_potential_stmts
                                         in case SplitStmt_call branches of
                                              Inl err \<Rightarrow> Inl err
                                            | Inr split \<Rightarrow>
                                                Inr (case_pre_stmts @ [split], st3)))))))))"
| "transform_stmt ctx labels (lal_LoopStmt n body) st =
     (case fresh_name ''exit_loop'' st of
        (nm, st1) \<Rightarrow>
          (let exit_label = Label nm None in
           case transform_stmts ctx labels body (loop_stack_append (n, exit_label) st1) of
             Inl err \<Rightarrow> Inl err
           | Inr (loop_stmts, st2) \<Rightarrow>
               (case loop_stack_pop st2 of
                  Inl err \<Rightarrow> Inl err
                | Inr st3 \<Rightarrow> Inr ([LoopStmt loop_stmts, LabelStmt exit_label], st3))))"
| "transform_stmt ctx labels (lal_WhileLoopStmt n c body) st =
     (case transform_expr c st of
        Inl err \<Rightarrow> Inl err
      | Inr ((cond_pre_stmts, cond), st1) \<Rightarrow>
          (case un_ops_item NOT of
             Inl err \<Rightarrow> Inl err
           | Inr not_op \<Rightarrow>
               (let not_cond = UnExpr not_op cond (type_hint cond) in
                case fresh_name ''exit_while_loop'' st1 of
                  (nm, st2) \<Rightarrow>
                    (let exit_label = Label nm None in
                     case transform_stmts ctx labels body
                            (loop_stack_append (n, exit_label) st2) of
                       Inl err \<Rightarrow> Inl err
                     | Inr (loop_stmts, st3) \<Rightarrow>
                         (case loop_stack_pop st3 of
                            Inl err \<Rightarrow> Inl err
                          | Inr st4 \<Rightarrow>
                              Inr ([LoopStmt
                                      (cond_pre_stmts @ [AssumeStmt cond None] @ loop_stmts),
                                    AssumeStmt not_cond None, LabelStmt exit_label], st4))))))"
| "transform_stmt ctx labels (lal_ForLoopStmt n body) st = Inr ([], st)"
| "transform_stmt ctx labels (lal_Label decl) st =
     (case labels decl of
        None \<Rightarrow> Inl KeyError
      | Some lbl \<Rightarrow> Inr ([LabelStmt lbl], st))"
| "transform_stmt ctx labels (lal_GotoStmt decl) st =
     (case labels decl of
        None \<Rightarrow> Inl KeyError
      | Some lbl \<Rightarrow> Inr ([GotoStmt lbl], st))"
| "transform_stmt ctx labels (lal_NamedStmt s) st = transform_stmt ctx labels s st"
| "transform_stmt ctx labels (lal_ExitStmt loop_name condition) st =
     (case (case loop_name of
              None \<Rightarrow> loop_stack_top st
            | Some ref_loop \<Rightarrow> loop_stack_next ref_loop st) of
        Inl err \<Rightarrow> Inl err
      | Inr exited_loop \<Rightarrow>
          (let loop_exit_label = snd exited_loop;
               exit_goto = GotoStmt loop_exit_label
           in case condition of
                None \<Rightarrow> Inr ([exit_goto], st)
              | Some c \<Rightarrow> gen_split_stmt c [exit_goto] [] st))"
| "transform_stmt ctx labels (lal_ExceptionHandler body) st = Inr ([], st)"
| "transform_stmt ctx labels (lal_OtherStmt txt cls) st = Inl (unimplemented txt cls)"
| "transform_stmts ctx labels [] st = Inr ([], st)"
| "transform_stmts ctx labels (s # ss) st =
     (case transform_stmt ctx labels s st of
        Inl err \<Rightarrow> Inl err
      | Inr (res1, st1) \<Rightarrow>
          (case transform_stmts ctx labels ss st1 of
             Inl err \<Rightarrow> Inl err
           | Inr (res2, st2) \<Rightarrow> Inr (res1 @ res2, st2)))"
| "transform_case_alts ctx labels [] st = Inr ([], st)"
| "transform_case_alts ctx labels ((choices, body) # alts) st =
     (if has_others choices then transform_case_alts ctx labels alts st
      else
        (case eval_choices ctx choices st of
           Inl err \<Rightarrow> Inl err
         | Inr (vals, st1) \<Rightarrow>
             (case transform_stmts ctx labels body st1 of
                Inl err \<Rightarrow> Inl err
              | Inr (stmts, st2) \<Rightarrow>
                  (case transform_case_alts ctx labels alts st2 of
                     Inl err \<Rightarrow> Inl err
                   | Inr (rest, st3) \<Rightarrow> Inr ((vals, stmts) # rest, st3)))))"
| "transform_others_alts ctx labels [] st = Inr ([], st)"
| "transform_others_alts ctx labels ((choices, body) # alts) st =
     (if has_others choices then
        (case transform_stmts ctx labels body st of
           Inl err \<Rightarrow> Inl err
         | Inr (stmts, st1) \<Rightarrow>
             (case transform_others_alts ctx labels alts st1 of
                Inl err \<Rightarrow> Inl err
              | Inr (rest, st2) \<Rightarrow> Inr (stmts # rest, st2)))
      else transform_others_alts ctx labels alts st)"

subsection \<open>Declarations and the program\<close>

text \<open>
  \<^verbatim>\<open>transform_decl\<close>: an object declaration registers one variable per declared name under
  the key (declaration, name), then reads each of them, or assigns the one lowered default
  expression to each of them.
\<close>

definition register_ids :: "node_id \<Rightarrow> string list \<Rightarrow> tdecl \<Rightarrow> lowering \<Rightarrow> lowering" where
  "register_ids d ids tdecl st =
     foldl (\<lambda>s var_id. s\<lparr>var_decls := (var_decls s)((d, var_id) \<mapsto> Variable var_id None tdecl)\<rparr>)
       st ids"

definition lookup_var :: "lowering \<Rightarrow> node_id \<Rightarrow> string \<Rightarrow> error + variable" where
  "lookup_var st d var_id =
     (case var_decls st (d, var_id) of None \<Rightarrow> Inl KeyError | Some v \<Rightarrow> Inr v)"

fun transform_decl :: "lal_decl \<Rightarrow> lowering \<Rightarrow> error + (stmt list \<times> lowering)" where
  "transform_decl lal_TypeDecl st = Inr ([], st)"
| "transform_decl lal_NumberDecl st = Inr ([], st)"
| "transform_decl (lal_ObjectDecl d ids tdecl default_expr) st =
     (let st1 = register_ids d ids tdecl st in
      case default_expr of
        None \<Rightarrow>
          (case map_err (\<lambda>var_id.
                   case lookup_var st1 d var_id of
                     Inl err \<Rightarrow> Inl err
                   | Inr v \<Rightarrow> Inr (ReadStmt (Identifier v tdecl))) ids of
             Inl err \<Rightarrow> Inl err
           | Inr reads \<Rightarrow> Inr (reads, st1))
      | Some dexpr \<Rightarrow>
          (case transform_expr dexpr st1 of
             Inl err \<Rightarrow> Inl err
           | Inr ((dval_pre_stmts, dval_expr), st2) \<Rightarrow>
               (case map_err (\<lambda>var_id.
                        case lookup_var st2 d var_id of
                          Inl err \<Rightarrow> Inl err
                        | Inr v \<Rightarrow> Inr (AssignStmt (Identifier v tdecl) dval_expr)) ids of
                  Inl err \<Rightarrow> Inl err
                | Inr assigns \<Rightarrow> Inr (dval_pre_stmts @ assigns, st2))))"
| "transform_decl (lal_OtherDecl txt cls) st = Inl (unimplemented txt cls)"

fun transform_decls :: "lal_decl list \<Rightarrow> lowering \<Rightarrow> error + (stmt list \<times> lowering)" where
  "transform_decls [] st = Inr ([], st)"
| "transform_decls (d # ds) st =
     (case transform_decl d st of
        Inl err \<Rightarrow> Inl err
      | Inr (res1, st1) \<Rightarrow>
          (case transform_decls ds st1 of
             Inl err \<Rightarrow> Inl err
           | Inr (res2, st2) \<Rightarrow> Inr (res1 @ res2, st2)))"

text \<open>
  \<^verbatim>\<open>_gen_ir\<close>: the empty dictionary of variables, the fresh counter, the labels made from
  every label declaration of the subprogram, the empty loop stack; then the declarations
  and the statements. An expression function has no \<^verbatim>\<open>f_decls\<close>.
\<close>

definition gen_labels :: "label_decl list \<Rightarrow> (label_decl \<rightharpoonup> label)" where
  "gen_labels decls = map_of (map (\<lambda>label_decl. (label_decl, Label (snd label_decl) (Some label_decl))) decls)"

definition initial_lowering :: lowering where
  "initial_lowering = \<lparr>var_decls = Map.empty, tmp_vars = (\<lambda>nm. 0), loop_stack = []\<rparr>"

fun gen_ir :: "ExtractionContext \<Rightarrow> lal_subp \<Rightarrow> error + program" where
  "gen_ir ctx (lal_SubpBody decls stmts label_decls) =
     (case transform_decls decls initial_lowering of
        Inl err \<Rightarrow> Inl err
      | Inr (ir_decls, st1) \<Rightarrow>
          (case transform_stmts ctx (gen_labels label_decls) stmts st1 of
             Inl err \<Rightarrow> Inl err
           | Inr (ir_stmts, st2) \<Rightarrow> Inr (Program (ir_decls @ ir_stmts))))"
| "gen_ir ctx (lal_ExprFunction e label_decls) = Inl AttributeError"

section \<open>The universal type normalizer\<close>

text \<open>
  \<^verbatim>\<open>ConvertUniversalTypes\<close> changes the tree in place; the functions below return the changed
  tree. An exception other than \<^verbatim>\<open>NotConstExprError\<close> leaves \<^verbatim>\<open>try_convert_expr\<close> and ends
  the pass. \<open>expr_visit\<close> is \<^verbatim>\<open>expr.visit(self)\<close>: \<^verbatim>\<open>visit_binexpr\<close> and \<^verbatim>\<open>visit_unexpr\<close> for
  the operators.

  \<^verbatim>\<open>visit_assign\<close> calls \<^verbatim>\<open>self.try_convert_expr(assign.expr, assign.id.data.type_hint)\<close>. An
  \<^verbatim>\<open>AssignStmt\<close> of \<^verbatim>\<open>tree.py\<close> has the attributes \<^verbatim>\<open>var\<close> and \<^verbatim>\<open>expr\<close> and no attribute
  \<^verbatim>\<open>id\<close>: the second argument raises \<^verbatim>\<open>AttributeError\<close> before \<^verbatim>\<open>try_convert_expr\<close> is
  called, at every assignment.

  Modelled from the spec: \<^verbatim>\<open>ImplicitVisitor\<close> of \<^verbatim>\<open>lalcheck.irs.basic.visitors\<close>, which
  visits the children of a node it has no method for: nothing happens at an identifier
  or a literal, and the statements of a program, of the two branches of a split and of a
  loop are visited in order.

  A node that two statements share (the condition under \<^verbatim>\<open>assume(cond)\<close> and
  \<^verbatim>\<open>assume(not cond)\<close>, the default expression of several declared names) is visited once
  from each; the second visit meets the result of the first. The functions convert each
  occurrence of the lowered tree.
\<close>

definition has_universal_type :: "ConstExprEvaluator \<Rightarrow> expr \<Rightarrow> bool" where
  "has_universal_type ev e = (type_hint e \<in> set [ev_universal_int ev, ev_universal_real ev])"

fun try_convert_expr :: "ConstExprEvaluator \<Rightarrow> expr \<Rightarrow> tdecl \<Rightarrow> error + expr"
and expr_visit :: "ConstExprEvaluator \<Rightarrow> expr \<Rightarrow> error + expr"
where
  "try_convert_expr ev e expected_type =
     (case eval ev e of
        Inr v \<Rightarrow> Inr (Lit v expected_type)
      | Inl err \<Rightarrow> (if err = NotConstExprError then expr_visit ev e else Inl err))"
| "expr_visit ev (BinExpr lhs bop rhs h) =
     (let expected_type = (if has_universal_type ev rhs then type_hint lhs else type_hint rhs) in
      case try_convert_expr ev lhs expected_type of
        Inl err \<Rightarrow> Inl err
      | Inr lhs' \<Rightarrow>
          (case try_convert_expr ev rhs expected_type of
             Inl err \<Rightarrow> Inl err
           | Inr rhs' \<Rightarrow> Inr (BinExpr lhs' bop rhs' h)))"
| "expr_visit ev (UnExpr uop e h) =
     (case expr_visit ev e of Inl err \<Rightarrow> Inl err | Inr e' \<Rightarrow> Inr (UnExpr uop e' h))"
| "expr_visit ev (Identifier v h) = Inr (Identifier v h)"
| "expr_visit ev (Lit v h) = Inr (Lit v h)"

fun stmt_visit :: "ConstExprEvaluator \<Rightarrow> stmt \<Rightarrow> error + stmt"
and stmts_visit :: "ConstExprEvaluator \<Rightarrow> stmt list \<Rightarrow> error + stmt list"
where
  "stmt_visit ev (AssignStmt var e) = Inl AttributeError"
| "stmt_visit ev (AssumeStmt e purpose) =
     (case try_convert_expr ev e (ev_bool ev) of
        Inl err \<Rightarrow> Inl err
      | Inr e' \<Rightarrow> Inr (AssumeStmt e' purpose))"
| "stmt_visit ev (SplitStmt fst_stmts snd_stmts) =
     (case stmts_visit ev fst_stmts of
        Inl err \<Rightarrow> Inl err
      | Inr fst_stmts' \<Rightarrow>
          (case stmts_visit ev snd_stmts of
             Inl err \<Rightarrow> Inl err
           | Inr snd_stmts' \<Rightarrow> Inr (SplitStmt fst_stmts' snd_stmts')))"
| "stmt_visit ev (LoopStmt stmts) =
     (case stmts_visit ev stmts of Inl err \<Rightarrow> Inl err | Inr stmts' \<Rightarrow> Inr (LoopStmt stmts'))"
| "stmt_visit ev (ReadStmt ident) = Inr (ReadStmt ident)"
| "stmt_visit ev (UseStmt ident) = Inr (UseStmt ident)"
| "stmt_visit ev (GotoStmt lbl) = Inr (GotoStmt lbl)"
| "stmt_visit ev (LabelStmt lbl) = Inr (LabelStmt lbl)"
| "stmts_visit ev [] = Inr []"
| "stmts_visit ev (s # ss) =
     (case stmt_visit ev s of
        Inl err \<Rightarrow> Inl err
      | Inr s' \<Rightarrow> (case stmts_visit ev ss of Inl err \<Rightarrow> Inl err | Inr ss' \<Rightarrow> Inr (s' # ss')))"

fun ConvertUniversalTypes :: "ConstExprEvaluator \<Rightarrow> program \<Rightarrow> error + program" where
  "ConvertUniversalTypes ev (Program stmts) =
     (case stmts_visit ev stmts of Inl err \<Rightarrow> Inl err | Inr stmts' \<Rightarrow> Inr (Program stmts'))"

section \<open>Extraction of the programs of a unit\<close>

text \<open>
  A parsed unit: the subprograms \<^verbatim>\<open>unit.root.findall((lal.SubpBody, lal.ExprFunction))\<close>
  finds, or no root, and the diagnostics. Without a root \<^verbatim>\<open>extract_programs\<close> returns
  \<^verbatim>\<open>None\<close> from inside the loop over the diagnostics; with no diagnostic it goes on to
  \<^verbatim>\<open>unit.root.findall\<close>. Otherwise every subprogram is lowered, then every program is
  normalized; nothing catches an exception.
\<close>

record lal_unit =
  root :: "lal_subp list option"
  diagnostics :: "string list"

definition extract_programs :: "ExtractionContext \<Rightarrow> lal_unit \<Rightarrow> error + program list option" where
  "extract_programs ctx unit =
     (case root unit of
        None \<Rightarrow> (if diagnostics unit = [] then Inl AttributeError else Inr None)
      | Some subps \<Rightarrow>
          (case map_err (gen_ir ctx) subps of
             Inl err \<Rightarrow> Inl err
           | Inr progs \<Rightarrow>
               (case map_err (ConvertUniversalTypes (evaluator ctx)) progs of
                  Inl err \<Rightarrow> Inl err
                | Inr progs' \<Rightarrow> Inr (Some progs'))))"

text \<open>
  \<^verbatim>\<open>ExtractionContext.__init__\<close> builds the evaluator from the standard types of the dummy
  unit.
\<close>

definition ExtractionContext_evaluator :: "(pyval \<Rightarrow> pyval \<Rightarrow> int) \<Rightarrow> ConstExprEvaluator" where
  "ExtractionContext_evaluator d =
     \<lparr>ev_bool = StdBoolean, ev_int = StdInteger, ev_universal_int = UniversalInt,
      ev_universal_real = UniversalReal, cmp_default = d\<rparr>"

text \<open>
  One default comparison, for evaluating examples: CPython 2 puts numbers before every
  other object and orders the rest by type name (\<^verbatim>\<open>Range\<close> before \<^verbatim>\<open>str\<close>); two ranges are
  distinct objects, the first one taken to be at the lower address.
\<close>

fun cmp_example :: "pyval \<Rightarrow> pyval \<Rightarrow> int" where
  "cmp_example (VInt a) y = - 1"
| "cmp_example (VLong a) y = - 1"
| "cmp_example x (VInt b) = 1"
| "cmp_example x (VLong b) = 1"
| "cmp_example (VRange a b) y = - 1"
| "cmp_example x y = 1"

definition ev_example :: ConstExprEvaluator where
  "ev_example = ExtractionContext_evaluator cmp_example"

definition new_context :: "(pyval \<Rightarrow> pyval \<Rightarrow> int) \<Rightarrow> ExtractionContext" where
  "new_context d = \<lparr>evaluator = ExtractionContext_evaluator d\<rparr>"

definition ctx_example :: ExtractionContext where
  "ctx_example = new_context cmp_example"

section \<open>Splits, labels and gotos of a tree\<close>

text \<open>\<open>split_free\<close>: the tree has no split statement.\<close>

fun split_free :: "stmt \<Rightarrow> bool"
and stmts_split_free :: "stmt list \<Rightarrow> bool"
where
  "split_free (SplitStmt fst_stmts snd_stmts) = False"
| "split_free (LoopStmt stmts) = stmts_split_free stmts"
| "split_free s = True"
| "stmts_split_free [] = True"
| "stmts_split_free (s # ss) = (split_free s \<and> stmts_split_free ss)"

fun program_split_free :: "program \<Rightarrow> bool" where
  "program_split_free (Program stmts) = stmts_split_free stmts"

text \<open>The label statements of a tree and the targets of its gotos, with repetitions.\<close>

fun stmt_labels :: "stmt \<Rightarrow> label list"
and stmts_labels :: "stmt list \<Rightarrow> label list"
where
  "stmt_labels (LabelStmt lbl) = [lbl]"
| "stmt_labels (SplitStmt fst_stmts snd_stmts) = stmts_labels fst_stmts @ stmts_labels snd_stmts"
| "stmt_labels (LoopStmt stmts) = stmts_labels stmts"
| "stmt_labels s = []"
| "stmts_labels [] = []"
| "stmts_labels (s # ss) = stmt_labels s @ stmts_labels ss"

fun stmt_gotos :: "stmt \<Rightarrow> label list"
and stmts_gotos :: "stmt list \<Rightarrow> label list"
where
  "stmt_gotos (GotoStmt lbl) = [lbl]"
| "stmt_gotos (SplitStmt fst_stmts snd_stmts) = stmts_gotos fst_stmts @ stmts_gotos snd_stmts"
| "stmt_gotos (LoopStmt stmts) = stmts_gotos stmts"
| "stmt_gotos s = []"
| "stmts_gotos [] = []"
| "stmts_gotos (s # ss) = stmt_gotos s @ stmts_gotos ss"

text \<open>Every goto of the program has exactly one label statement of its target.\<close>

fun goto_targets_unique :: "program \<Rightarrow> bool" where
  "goto_targets_unique (Program stmts) =
     list_all (\<lambda>lbl. count_list (stmts_labels stmts) lbl = 1) (stmts_gotos stmts)"

text \<open>
  The label statements and the goto statements of the source that \<^verbatim>\<open>transform_stmt\<close>
  reaches: it does not go into the body of a for loop, into the elsif alternatives of an if
  statement or into an exception handler.
\<close>

fun reached_labels :: "lal_stmt \<Rightarrow> label_decl list"
and reached_labels_list :: "lal_stmt list \<Rightarrow> label_decl list"
and reached_labels_alts :: "(choice list \<times> lal_stmt list) list \<Rightarrow> label_decl list"
where
  "reached_labels (lal_Label decl) = [decl]"
| "reached_labels (lal_IfStmt c then_stmts alternatives else_stmts) =
     reached_labels_list then_stmts @ reached_labels_list else_stmts"
| "reached_labels (lal_CaseStmt sel alts) = reached_labels_alts alts"
| "reached_labels (lal_LoopStmt n body) = reached_labels_list body"
| "reached_labels (lal_WhileLoopStmt n c body) = reached_labels_list body"
| "reached_labels (lal_NamedStmt s) = reached_labels s"
| "reached_labels s = []"
| "reached_labels_list [] = []"
| "reached_labels_list (s # ss) = reached_labels s @ reached_labels_list ss"
| "reached_labels_alts [] = []"
| "reached_labels_alts ((choices, body) # alts) =
     reached_labels_list body @ reached_labels_alts alts"

fun reached_gotos :: "lal_stmt \<Rightarrow> label_decl list"
and reached_gotos_list :: "lal_stmt list \<Rightarrow> label_decl list"
and reached_gotos_alts :: "(choice list \<times> lal_stmt list) list \<Rightarrow> label_decl list"
where
  "reached_gotos (lal_GotoStmt decl) = [decl]"
| "reached_gotos (lal_IfStmt c then_stmts alternatives else_stmts) =
     reached_gotos_list then_stmts @ reached_gotos_list else_stmts"
| "reached_gotos (lal_CaseStmt sel alts) = reached_gotos_alts alts"
| "reached_gotos (lal_LoopStmt n body) = reached_gotos_list body"
| "reached_gotos (lal_WhileLoopStmt n c body) = reached_gotos_list body"
| "reached_gotos (lal_NamedStmt s) = reached_gotos s"
| "reached_gotos s = []"
| "reached_gotos_list [] = []"
| "reached_gotos_list (s # ss) = reached_gotos s @ reached_gotos_list ss"
| "reached_gotos_alts [] = []"
| "reached_gotos_alts ((choices, body) # alts) =
     reached_gotos_list body @ reached_gotos_alts alts"

subsection \<open>The effect of the lowering on labels\<close>

text \<open>
  \<open>plain_stmts\<close>: statements without a split, a label or a goto. \<open>src_label d\<close> is the label
  node \<^verbatim>\<open>_gen_ir\<close> makes for the label declaration \<open>d\<close>; \<open>synth_label base k\<close> is the exit
  label with the \<open>k\<close>-th fresh name of \<open>base\<close>, and \<open>synth_labels st st'\<close> are the exit labels
  with the names drawn between the states \<open>st\<close> and \<open>st'\<close>.
\<close>

definition plain_stmts :: "stmt list \<Rightarrow> bool" where
  "plain_stmts ss = (stmts_split_free ss \<and> stmts_labels ss = [] \<and> stmts_gotos ss = [])"

definition src_label :: "label_decl \<Rightarrow> label" where
  "src_label d = Label (snd d) (Some d)"

definition synth_label :: "string \<Rightarrow> nat \<Rightarrow> label" where
  "synth_label base k = Label (base @ str_nat k) None"

definition synth_labels :: "lowering \<Rightarrow> lowering \<Rightarrow> label multiset" where
  "synth_labels st st' =
     mset (map (synth_label ''exit_loop'')
             [tmp_vars st ''exit_loop''..<tmp_vars st' ''exit_loop'']) +
     mset (map (synth_label ''exit_while_loop'')
             [tmp_vars st ''exit_while_loop''..<tmp_vars st' ''exit_while_loop''])"

definition counters_mono :: "lowering \<Rightarrow> lowering \<Rightarrow> bool" where
  "counters_mono st st' = (\<forall>nm. tmp_vars st nm \<le> tmp_vars st' nm)"

text \<open>
  \<open>stmts_effect st out st' ls gs\<close>: what a lowering step from \<open>st\<close> to \<open>st'\<close> with the
  statements \<open>out\<close> keeps, when it has reached the label statements \<open>ls\<close> and the goto
  statements \<open>gs\<close> of the source. There is no split in \<open>out\<close>; the loop stack is the one
  before; a counter only grows; the labels of \<open>out\<close> are the labels of \<open>ls\<close> and the exit
  labels made on the way, each once; a goto of \<open>out\<close> goes to the label of a goto of the
  source, to the exit label of a loop around, or to an exit label made on the way.
\<close>

definition stmts_effect ::
  "lowering \<Rightarrow> stmt list \<Rightarrow> lowering \<Rightarrow> label_decl list \<Rightarrow> label_decl list \<Rightarrow> bool" where
  "stmts_effect st out st' ls gs =
     (stmts_split_free out \<and> loop_stack st' = loop_stack st \<and> counters_mono st st' \<and>
      mset (stmts_labels out) = image_mset src_label (mset ls) + synth_labels st st' \<and>
      set (stmts_gotos out)
        \<subseteq> src_label ` set gs \<union> snd ` set (loop_stack st) \<union> set_mset (synth_labels st st'))"

definition labels_from_decls :: "(label_decl \<rightharpoonup> label) \<Rightarrow> bool" where
  "labels_from_decls labels = (\<forall>d lbl. labels d = Some lbl \<longrightarrow> lbl = src_label d)"


section \<open>Properties of the constant expression evaluator\<close>

lemma BinOps_no_KeyError: "BinOps d s = Some opf \<Longrightarrow> opf x y \<noteq> Inl KeyError"
  by (cases s; cases x; cases y) auto

lemma UnOps_no_KeyError: "UnOps s = Some opf \<Longrightarrow> opf x \<noteq> Inl KeyError"
  by (cases s; cases x) auto

lemma except_KeyError_id: "r \<noteq> Inl KeyError \<Longrightarrow> except_KeyError r = r"
  by (cases r rule: except_KeyError.cases) auto

lemma visit_no_KeyError: "visit ev e \<noteq> Inl KeyError"
proof (induction e)
  case (BinExpr l bop r h)
  show ?case
  proof (cases "BinOps (cmp_default ev) (sym bop)")
    case None
    then show ?thesis by simp
  next
    case (Some opf)
    with BinExpr BinOps_no_KeyError [OF Some] show ?thesis
      by (auto split: sum.splits simp: except_KeyError_id)
  qed
next
  case (UnExpr uop e h)
  show ?case
  proof (cases "UnOps (sym uop)")
    case None
    then show ?thesis by simp
  next
    case (Some opf)
    with UnExpr UnOps_no_KeyError [OF Some] show ?thesis
      by (auto split: sum.splits simp: except_KeyError_id)
  qed
qed simp_all

lemma visit_BinExpr_Some:
  "BinOps (cmp_default ev) (sym bop) = Some opf \<Longrightarrow>
   visit ev (BinExpr l bop r h) =
     (case visit ev l of
        Inl e \<Rightarrow> Inl e
      | Inr x \<Rightarrow> (case visit ev r of Inl e \<Rightarrow> Inl e | Inr y \<Rightarrow> opf x y))"
  using visit_no_KeyError [of ev l] visit_no_KeyError [of ev r] BinOps_no_KeyError [of _ _ opf]
  by (auto split: sum.splits simp: except_KeyError_id)

lemma visit_UnExpr_Some:
  "UnOps (sym uop) = Some opf \<Longrightarrow>
   visit ev (UnExpr uop e h) = (case visit ev e of Inl err \<Rightarrow> Inl err | Inr x \<Rightarrow> opf x)"
  using visit_no_KeyError [of ev e] UnOps_no_KeyError [of _ opf]
  by (auto split: sum.splits simp: except_KeyError_id)

lemma visit_BinExpr_None:
  "BinOps (cmp_default ev) (sym bop) = None \<Longrightarrow> visit ev (BinExpr l bop r h) = Inl NotConstExprError"
  by simp

lemma visit_UnExpr_None:
  "UnOps (sym uop) = None \<Longrightarrow> visit ev (UnExpr uop e h) = Inl NotConstExprError"
  by simp

text \<open>
  C8. The evaluator returns the value of a literal. It fails with \<^verbatim>\<open>NotConstExprError\<close> on
  an identifier, and on a binary or unary expression whose operator symbol is not in
  \<^verbatim>\<open>BinOps\<close> or \<^verbatim>\<open>UnOps\<close>, whatever the operands are. When the operator is in the table,
  the failure of an operand (the left one, or the right one after the left one has
  evaluated) is the failure of the expression.
\<close>

theorem evaluator_literals_identifiers_failures:
  "eval ev (Lit v h) = Inr v
   \<and> eval ev (Identifier x h) = Inl NotConstExprError
   \<and> (BinOps (cmp_default ev) s = None \<longrightarrow>
        eval ev (BinExpr l (Operator s) r h) = Inl NotConstExprError)
   \<and> (UnOps s = None \<longrightarrow> eval ev (UnExpr (Operator s) e h) = Inl NotConstExprError)
   \<and> (BinOps (cmp_default ev) s \<noteq> None \<and> eval ev l = Inl err \<longrightarrow>
        eval ev (BinExpr l (Operator s) r h) = Inl err)
   \<and> (BinOps (cmp_default ev) s \<noteq> None \<and> eval ev l = Inr a \<and> eval ev r = Inl err \<longrightarrow>
        eval ev (BinExpr l (Operator s) r h) = Inl err)
   \<and> (UnOps s \<noteq> None \<and> eval ev e = Inl err \<longrightarrow>
        eval ev (UnExpr (Operator s) e h) = Inl err)"
proof -
  have b1: "eval ev (BinExpr l (Operator s) r h) = Inl err"
    if "BinOps (cmp_default ev) s \<noteq> None" "eval ev l = Inl err"
    using that visit_BinExpr_Some [of ev "Operator s" _ l r h] by (auto simp: eval_def)
  have b2: "eval ev (BinExpr l (Operator s) r h) = Inl err"
    if "BinOps (cmp_default ev) s \<noteq> None" "eval ev l = Inr a" "eval ev r = Inl err"
    using that visit_BinExpr_Some [of ev "Operator s" _ l r h] by (auto simp: eval_def)
  have u1: "eval ev (UnExpr (Operator s) e h) = Inl err"
    if "UnOps s \<noteq> None" "eval ev e = Inl err"
    using that visit_UnExpr_Some [of "Operator s" _ ev e h] by (auto simp: eval_def)
  show ?thesis
    using b1 b2 u1 by (simp add: eval_def)
qed

theorem evaluator_literals_identifiers_failures_witness:
  "eval ev_example (Lit (VInt 5) UniversalInt) = Inr (VInt 5)
   \<and> eval ev_example (Identifier (Variable ''X'' None StdInteger) StdInteger) = Inl NotConstExprError
   \<and> BinOps (cmp_default ev_example) DEREF = None
   \<and> eval ev_example
        (BinExpr (Lit (VInt 1) UniversalInt) (Operator DEREF) (Lit (VInt 2) UniversalInt) UniversalInt)
      = Inl NotConstExprError
   \<and> UnOps ADDRESS = None
   \<and> eval ev_example (UnExpr (Operator ADDRESS) (Lit (VInt 1) UniversalInt) StdInteger)
      = Inl NotConstExprError
   \<and> BinOps (cmp_default ev_example) PLUS \<noteq> None
   \<and> eval ev_example (Lit (VStr ''a'') StdInteger) = Inr (VStr ''a'')
   \<and> eval ev_example (UnExpr (Operator NEG) (Lit (VStr ''a'') StdInteger) StdInteger) = Inl TypeError
   \<and> eval ev_example
        (BinExpr (UnExpr (Operator NEG) (Lit (VStr ''a'') StdInteger) StdInteger) (Operator PLUS)
           (Lit (VInt 2) UniversalInt) StdInteger) = Inl TypeError
   \<and> eval ev_example
        (BinExpr (Lit (VStr ''a'') StdInteger) (Operator PLUS)
           (UnExpr (Operator NEG) (Lit (VStr ''a'') StdInteger) StdInteger) StdInteger) = Inl TypeError
   \<and> UnOps NOT \<noteq> None
   \<and> eval ev_example
        (UnExpr (Operator NOT) (UnExpr (Operator NEG) (Lit (VStr ''a'') StdInteger) StdInteger)
           StdBoolean) = Inl TypeError"
  using evaluator_literals_identifiers_failures
          [where ev = ev_example and v = "VInt 5" and h = UniversalInt
             and x = "Variable ''X'' None StdInteger" and s = DEREF
             and l = "Lit (VInt 1) UniversalInt" and r = "Lit (VInt 2) UniversalInt"]
        evaluator_literals_identifiers_failures
          [where ev = ev_example and s = ADDRESS and e = "Lit (VInt 1) UniversalInt"
             and h = StdInteger]
        evaluator_literals_identifiers_failures
          [where ev = ev_example and s = PLUS and h = StdInteger and err = TypeError
             and l = "UnExpr (Operator NEG) (Lit (VStr ''a'') StdInteger) StdInteger"
             and r = "Lit (VInt 2) UniversalInt"]
        evaluator_literals_identifiers_failures
          [where ev = ev_example and s = PLUS and h = StdInteger and err = TypeError
             and l = "Lit (VStr ''a'') StdInteger" and a = "VStr ''a''"
             and r = "UnExpr (Operator NEG) (Lit (VStr ''a'') StdInteger) StdInteger"]
        evaluator_literals_identifiers_failures
          [where ev = ev_example and s = NOT and h = StdBoolean and err = TypeError
             and e = "UnExpr (Operator NEG) (Lit (VStr ''a'') StdInteger) StdInteger"]
  by (simp add: eval_def)

section \<open>Failures of the lowering\<close>

lemma map_err_first_failure:
  "\<forall>x \<in> set pre. \<exists>y. f x = Inr y \<Longrightarrow> f s = Inl err \<Longrightarrow> map_err f (pre @ s # post) = Inl err"
  by (induction pre) (auto split: sum.splits)

lemma transform_case_alts_all_others:
  "\<forall>alt \<in> set alts. has_others (fst alt) \<Longrightarrow>
   transform_case_alts ctx labels alts st = Inr ([], st)"
  by (induction alts) auto

text \<open>
  C4, as the code has it. A for loop lowers to the empty list of statements and leaves the
  state as it is: no fault, and the body is not lowered. A statement, an expression or a
  declaration of a kind the lowering has no branch for raises \<^verbatim>\<open>NotImplementedError\<close> with
  the text and the class of the node. A binary operator that is no short-circuit operator
  and has no entry in the operator table raises \<^verbatim>\<open>KeyError\<close>, once both operands are
  lowered.
\<close>

theorem for_loop_lowers_to_nothing_unknown_nodes_raise:
  "transform_stmt ctx labels (lal_ForLoopStmt n body) st = Inr ([], st)
   \<and> transform_stmt ctx labels (lal_OtherStmt txt cls) st = Inl (unimplemented txt cls)
   \<and> transform_expr (lal_OtherExpr txt cls t) st = Inl (unimplemented txt cls)
   \<and> transform_decl (lal_OtherDecl txt cls) st = Inl (unimplemented txt cls)
   \<and> (\<not> is_short_circuit bop \<and> lal_op_type_2_symbol (bop, 2) = None
        \<and> transform_expr l st = Inr ((lp, le), sta)
        \<and> transform_expr r sta = Inr ((rp, re), stb)
      \<longrightarrow> transform_expr (lal_BinOp l bop r t) st = Inl KeyError)"
  by (simp add: transform_operator_def)

theorem for_loop_lowers_to_nothing_unknown_nodes_raise_witness:
  "\<not> is_short_circuit OpMult \<and> lal_op_type_2_symbol (OpMult, 2) = None
   \<and> transform_expr (lal_IntLiteral ''2'' UniversalInt) initial_lowering
       = Inr (([], Lit (VInt 2) UniversalInt), initial_lowering)
   \<and> transform_expr (lal_IntLiteral ''3'' UniversalInt) initial_lowering
       = Inr (([], Lit (VInt 3) UniversalInt), initial_lowering)
   \<and> transform_expr
        (lal_BinOp (lal_IntLiteral ''2'' UniversalInt) OpMult (lal_IntLiteral ''3'' UniversalInt)
           UniversalInt) initial_lowering = Inl KeyError
   \<and> transform_stmt ctx_example Map.empty
        (lal_ForLoopStmt 2 [lal_OtherStmt ''null;'' (cls_repr ''NullStmt'')]) initial_lowering
       = Inr ([], initial_lowering)"
  using for_loop_lowers_to_nothing_unknown_nodes_raise
          [where bop = OpMult and l = "lal_IntLiteral ''2'' UniversalInt"
             and r = "lal_IntLiteral ''3'' UniversalInt" and st = initial_lowering
             and sta = initial_lowering and stb = initial_lowering and lp = "[]" and rp = "[]"
             and le = "Lit (VInt 2) UniversalInt" and re = "Lit (VInt 3) UniversalInt"
             and t = UniversalInt and ctx = ctx_example and labels = Map.empty and n = 2
             and body = "[lal_OtherStmt ''null;'' (cls_repr ''NullStmt'')]"]
  by (simp add: lal_op_type_2_symbol_def lal_op_type_2_symbol_entries_def py_int_def
      digit_val_def py_number_def sys_maxint_def)

text \<open>
  The claim C4 asks for a fault on every for loop. The subprogram
  \<^verbatim>\<open>X : Integer; begin for I in ... loop X := 1; end loop; end\<close> lowers to a program: the
  read of \<open>X\<close>, and nothing for the loop.
\<close>

theorem for_loop_counterexample:
  "gen_ir ctx_example
     (lal_SubpBody [lal_ObjectDecl 1 [''X''] StdInteger None]
        [lal_ForLoopStmt 2
           [lal_AssignStmt 1 ''X'' StdInteger (lal_IntLiteral ''1'' UniversalInt)]] [])
   = Inr (Program [ReadStmt (Identifier (Variable ''X'' None StdInteger) StdInteger)])"
  by code_simp

text \<open>
  C5, as the code has it. \<^verbatim>\<open>extract_programs\<close> lowers the subprograms of the unit in order
  and catches nothing: when the lowering of one of them fails, after the ones before it
  have lowered, the failure is the result of \<^verbatim>\<open>extract_programs\<close>. No program is returned,
  neither for the failed subprogram nor for any other one of the unit.
\<close>

theorem extract_programs_fails_with_first_failure:
  assumes "root unit = Some (pre @ s # post)"
    and "\<forall>p \<in> set pre. \<exists>prog. gen_ir ctx p = Inr prog"
    and "gen_ir ctx s = Inl err"
  shows "extract_programs ctx unit = Inl err"
  using assms map_err_first_failure [of pre "gen_ir ctx" s err post]
  by (simp add: extract_programs_def)

theorem extract_programs_fails_with_first_failure_witness:
  "extract_programs ctx_example
     \<lparr>root = Some ([lal_SubpBody [lal_ObjectDecl 1 [''X''] StdInteger None] [] []] @
                    lal_SubpBody [] [lal_OtherStmt ''null;'' (cls_repr ''NullStmt'')] [] #
                    [lal_SubpBody [lal_ObjectDecl 1 [''Y''] StdInteger None] [] []]),
      diagnostics = []\<rparr>
   = Inl (unimplemented ''null;'' (cls_repr ''NullStmt''))"
proof -
  have ok: "\<forall>p \<in> set [lal_SubpBody [lal_ObjectDecl 1 [''X''] StdInteger None] [] []].
              \<exists>prog. gen_ir ctx_example p = Inr prog"
    by (simp add: initial_lowering_def register_ids_def lookup_var_def)
  have bad: "gen_ir ctx_example (lal_SubpBody [] [lal_OtherStmt ''null;'' (cls_repr ''NullStmt'')] [])
               = Inl (unimplemented ''null;'' (cls_repr ''NullStmt''))"
    by simp
  show ?thesis
    by (rule extract_programs_fails_with_first_failure [OF _ ok bad]) simp
qed

text \<open>
  The claim C5 lets the other subprograms of the unit go on. In a unit of two subprograms,
  the first with a statement the lowering does not know and the second one lowering to a
  program when it is alone, \<^verbatim>\<open>extract_programs\<close> fails and returns no program.
\<close>

theorem extract_programs_counterexample:
  "gen_ir ctx_example (lal_SubpBody [lal_ObjectDecl 1 [''X''] StdInteger None] [] [])
     = Inr (Program [ReadStmt (Identifier (Variable ''X'' None StdInteger) StdInteger)])
   \<and> extract_programs ctx_example
       \<lparr>root = Some [lal_SubpBody [] [lal_OtherStmt ''null;'' (cls_repr ''NullStmt'')] [],
                     lal_SubpBody [lal_ObjectDecl 1 [''X''] StdInteger None] [] []],
        diagnostics = []\<rparr>
     = Inl (unimplemented ''null;'' (cls_repr ''NullStmt''))"
  by code_simp

text \<open>
  C10. A case statement whose alternatives all hold an \<^verbatim>\<open>others\<close> choice (so it has no
  other alternative, or no alternative at all) is not lowered: \<^verbatim>\<open>transform_stmt\<close> fails, and
  no split with an \<^verbatim>\<open>others\<close> guard is built. The list of the conditions of the other
  alternatives is empty, and \<^verbatim>\<open>reduce\<close> raises \<^verbatim>\<open>TypeError\<close> on an empty list. With the
  registry of \<^verbatim>\<open>tree.py\<close> the lowering does not get as far: when the selector and the
  statements of the \<^verbatim>\<open>others\<close> alternatives lower, the failure is the \<^verbatim>\<open>KeyError\<close> of
  \<^verbatim>\<open>irt.bin_ops[ops.OR]\<close>, an argument of \<^verbatim>\<open>binexpr_builder\<close> that Python evaluates before
  it calls \<^verbatim>\<open>reduce\<close>.
\<close>

theorem case_of_only_others_fails:
  assumes "\<forall>alt \<in> set alts. has_others (fst alt)"
  shows "(\<exists>err. transform_stmt ctx labels (lal_CaseStmt sel alts) st = Inl err)
     \<and> (transform_expr sel st = Inr (r, st1)
          \<and> transform_others_alts ctx labels alts st1 = Inr (others_stmts, st2)
        \<longrightarrow> transform_stmt ctx labels (lal_CaseStmt sel alts) st = Inl KeyError)
     \<and> transform_case_alts ctx labels alts st1 = Inr ([], st1)
     \<and> reduce (binexpr_builder or_op (ev_bool (evaluator ctx))) [] = Inl TypeError"
  using transform_case_alts_all_others [OF assms]
  by (auto simp: bin_ops_item_def un_ops_item_def bin_ops_def un_ops_def
      split: sum.splits prod.splits)

theorem case_of_only_others_fails_witness:
  "transform_stmt ctx_example Map.empty
     (lal_CaseStmt (lal_IntLiteral ''1'' UniversalInt) [([OthersDesignator], [])]) initial_lowering
   = Inl KeyError"
proof -
  have a: "\<forall>alt \<in> set [([OthersDesignator], [] :: lal_stmt list)]. has_others (fst alt)"
    by (simp add: has_others_def)
  have s: "transform_expr (lal_IntLiteral ''1'' UniversalInt) initial_lowering
             = Inr (([], Lit (VInt 1) UniversalInt), initial_lowering)"
    by (simp add: py_int_def digit_val_def py_number_def sys_maxint_def)
  have o: "transform_others_alts ctx_example Map.empty [([OthersDesignator], [])] initial_lowering
             = Inr ([[]], initial_lowering)"
    by (simp add: has_others_def)
  from case_of_only_others_fails [OF a, of ctx_example Map.empty
         "lal_IntLiteral ''1'' UniversalInt" initial_lowering] s o
  show ?thesis by blast
qed

section \<open>Split statements\<close>

lemma un_ops_item_NOT: "un_ops_item NOT = Inr (Operator NOT)"
  by (simp add: un_ops_item_def un_ops_def)

lemma bin_ops_item_OR: "bin_ops_item OR = Inl KeyError"
  by (simp add: bin_ops_item_def bin_ops_def)

lemma bin_ops_item_AND: "bin_ops_item AND = Inl KeyError"
  by (simp add: bin_ops_item_def bin_ops_def)

lemma gen_split_stmt_TypeError:
  "transform_expr c st = Inr (r, st1) \<Longrightarrow> gen_split_stmt c then_stmts else_stmts st = Inl TypeError"
  by (cases r) (simp add: un_ops_item_NOT SplitStmt_call_def)

lemma gen_split_stmt_raises: "\<exists>err. gen_split_stmt c then_stmts else_stmts st = Inl err"
proof (cases "transform_expr c st")
  case (Inl err)
  then show ?thesis by simp
next
  case (Inr r)
  obtain a b where "r = (a, b)" by (cases r)
  with Inr gen_split_stmt_TypeError [of c st a b then_stmts else_stmts] show ?thesis
    by blast
qed

lemma transform_stmt_IfStmt_raises:
  "\<exists>err. transform_stmt ctx labels (lal_IfStmt c then_stmts alternatives else_stmts) st = Inl err"
  using gen_split_stmt_raises by (auto split: sum.splits)

lemma transform_stmt_CaseStmt_raises:
  "\<exists>err. transform_stmt ctx labels (lal_CaseStmt sel alts) st = Inl err"
  by (auto simp: bin_ops_item_OR split: sum.splits)

lemma transform_short_circuit_ops_raises:
  "\<exists>err. transform_short_circuit_ops e st = Inl err"
proof (cases e)
  case (lal_BinOp l bop r t)
  obtain nm sta where f: "fresh_name ''tmp'' st = (nm, sta)" by (cases "fresh_name ''tmp'' st")
  let ?res = "Identifier (Variable nm (Some SyntheticVariable) t) t"
  from gen_split_stmt_raises
  obtain err where "gen_split_stmt r [lits_assign ?res t lits_TRUE] [lits_assign ?res t lits_FALSE] sta
                      = Inl err"
    by blast
  with lal_BinOp f show ?thesis by (simp add: Let_def)
qed simp_all



section \<open>What a lowered program is made of\<close>

lemma stmts_split_free_append:
  "stmts_split_free (a @ b) = (stmts_split_free a \<and> stmts_split_free b)"
  by (induction a) auto

lemma stmts_labels_append: "stmts_labels (a @ b) = stmts_labels a @ stmts_labels b"
  by (induction a) auto

lemma stmts_gotos_append: "stmts_gotos (a @ b) = stmts_gotos a @ stmts_gotos b"
  by (induction a) auto

lemma plain_stmts_simps:
  "plain_stmts []"
  "plain_stmts (a @ b) = (plain_stmts a \<and> plain_stmts b)"
  "plain_stmts [AssignStmt i e]"
  "plain_stmts [AssumeStmt e p]"
  "plain_stmts [ReadStmt i]"
  by (auto simp: plain_stmts_def stmts_split_free_append stmts_labels_append
      stmts_gotos_append)

text \<open>
  An expression that lowers leaves the state as it was, and its statements are plain: the
  conditional expressions and the short-circuit operators, which draw a temporary, do not
  lower.
\<close>

lemma transform_expr_plain:
  "\<forall>st pre x st'. transform_expr e st = Inr ((pre, x), st') \<longrightarrow> st' = st \<and> plain_stmts pre"
  "\<forall>txt t st pre x st'. transform_expr (lal_Identifier txt rd t) st = Inr ((pre, x), st')
      \<longrightarrow> st' = st \<and> plain_stmts pre"
  "\<forall>txt t st pre x st'.
      transform_expr (lal_Identifier txt (ref_TypeDecl td) t) st = Inr ((pre, x), st')
      \<longrightarrow> st' = st \<and> plain_stmts pre"
proof (induction e and rd and td)
  case (lal_ParenExpr e)
  then show ?case by simp
next
  case (lal_BinOp l bop r t)
  show ?case
  proof (intro allI impI)
    fix st pre x st'
    assume h: "transform_expr (lal_BinOp l bop r t) st = Inr ((pre, x), st')"
    have ns: "\<not> is_short_circuit bop"
    proof
      assume "is_short_circuit bop"
      with h have "transform_short_circuit_ops (lal_BinOp l bop r t) st = Inr ((pre, x), st')"
        by (simp del: transform_short_circuit_ops.simps)
      with transform_short_circuit_ops_raises [of "lal_BinOp l bop r t" st] show False
        by auto
    qed
    with h obtain lp le sta rp re where
      l: "transform_expr l st = Inr ((lp, le), sta)"
      and r: "transform_expr r sta = Inr ((rp, re), st')"
      and pre: "pre = lp @ rp"
      by (auto split: sum.splits prod.splits)
    from l lal_BinOp(1) have el: "sta = st \<and> plain_stmts lp" by blast
    from r lal_BinOp(2) have er: "st' = sta \<and> plain_stmts rp" by blast
    from el er show "st' = st \<and> plain_stmts pre"
      unfolding pre by (simp add: plain_stmts_simps)
  qed
next
  case (lal_UnOp uop e t)
  show ?case
  proof (intro allI impI)
    fix st pre x st'
    assume "transform_expr (lal_UnOp uop e t) st = Inr ((pre, x), st')"
    then obtain ie where "transform_expr e st = Inr ((pre, ie), st')"
      by (auto split: sum.splits prod.splits)
    with lal_UnOp show "st' = st \<and> plain_stmts pre" by blast
  qed
next
  case (lal_IfExpr c a b t)
  show ?case
  proof (intro allI impI)
    fix st pre x st'
    assume h: "transform_expr (lal_IfExpr c a b t) st = Inr ((pre, x), st')"
    obtain nm sta where f: "fresh_name ''tmp'' st = (nm, sta)" by (cases "fresh_name ''tmp'' st")
    from h f obtain ts es stc where
      "gen_split_stmt c ts es stc = Inr (pre, st')"
      by (auto simp: Let_def simp del: gen_split_stmt.simps split: sum.splits prod.splits)
    with gen_split_stmt_raises [of c ts es stc] show "st' = st \<and> plain_stmts pre"
      by auto
  qed
next
  case (lal_Identifier tx rd t)
  then show ?case by blast
next
  case (lal_IntLiteral tx t)
  then show ?case by (auto split: sum.splits simp: plain_stmts_simps)
next
  case (lal_NullLiteral t)
  then show ?case by (auto simp: plain_stmts_simps)
next
  case (lal_ExplicitDeref p t)
  show ?case
  proof (intro allI impI)
    fix st pre x st'
    assume "transform_expr (lal_ExplicitDeref p t) st = Inr ((pre, x), st')"
    then obtain pp pe a where p: "transform_expr p st = Inr ((pp, pe), st')"
      and pre: "pre = pp @ [AssumeStmt a (Some (DerefCheck pe))]"
      by (auto simp: Let_def split: sum.splits prod.splits)
    from p lal_ExplicitDeref have "st' = st \<and> plain_stmts pp" by blast
    then show "st' = st \<and> plain_stmts pre"
      unfolding pre by (simp add: plain_stmts_simps)
  qed
next
  case (lal_AttributeRef p attr t)
  show ?case
  proof (intro allI impI)
    fix st pre x st'
    assume "transform_expr (lal_AttributeRef p attr t) st = Inr ((pre, x), st')"
    then obtain pe where "transform_expr p st = Inr ((pre, pe), st')"
      by (auto split: sum.splits prod.splits option.splits)
    with lal_AttributeRef show "st' = st \<and> plain_stmts pre" by blast
  qed
next
  case (lal_OtherExpr tx cls t)
  then show ?case by simp
next
  case (ref_ObjectDecl d)
  then show ?case by (auto split: option.splits simp: plain_stmts_simps)
next
  case (ref_EnumLiteralDecl td)
  then show ?case by (auto simp: plain_stmts_simps)
next
  case (ref_NumberDecl e)
  then show ?case by simp
next
  case (ref_TypeDecl td)
  then show ?case by blast
next
  case ref_Other
  then show ?case by simp
next
  case (SignedIntTypeDef rng)
  then show ?case by simp
next
  case OtherTypeDef
  then show ?case by simp
qed

lemma upt_split: "i \<le> j \<Longrightarrow> j \<le> k \<Longrightarrow> [i..<k] = [i..<j] @ [j..<k]"
  using upt_add_eq_append [of i j "k - j"] by simp

lemma counters_mono_refl: "counters_mono st st"
  by (simp add: counters_mono_def)

lemma counters_mono_trans: "counters_mono st sta \<Longrightarrow> counters_mono sta stb \<Longrightarrow> counters_mono st stb"
  by (auto simp: counters_mono_def intro: order_trans)

lemma synth_labels_add:
  "counters_mono st sta \<Longrightarrow> counters_mono sta stb \<Longrightarrow>
   synth_labels st stb = synth_labels st sta + synth_labels sta stb"
  unfolding synth_labels_def counters_mono_def
  using upt_split [of "tmp_vars st ''exit_loop''" "tmp_vars sta ''exit_loop''"
                      "tmp_vars stb ''exit_loop''"]
        upt_split [of "tmp_vars st ''exit_while_loop''" "tmp_vars sta ''exit_while_loop''"
                      "tmp_vars stb ''exit_while_loop''"]
  by simp

lemma synth_labels_same:
  "tmp_vars st' ''exit_loop'' = tmp_vars st ''exit_loop'' \<Longrightarrow>
   tmp_vars st' ''exit_while_loop'' = tmp_vars st ''exit_while_loop'' \<Longrightarrow>
   synth_labels st st' = {#}"
  by (simp add: synth_labels_def)

lemma stmts_effect_nil: "stmts_effect st [] st [] []"
  by (simp add: stmts_effect_def counters_mono_refl synth_labels_same)

lemma stmts_effect_plain: "plain_stmts out \<Longrightarrow> stmts_effect st out st [] []"
  by (simp add: stmts_effect_def plain_stmts_def counters_mono_refl synth_labels_same)

lemma stmts_effect_append:
  assumes a: "stmts_effect st a sta la ga" and b: "stmts_effect sta b stb lb gb"
  shows "stmts_effect st (a @ b) stb (la @ lb) (ga @ gb)"
proof -
  from a b have m1: "counters_mono st sta" and m2: "counters_mono sta stb"
    by (simp_all add: stmts_effect_def)
  have s: "synth_labels st stb = synth_labels st sta + synth_labels sta stb"
    by (rule synth_labels_add [OF m1 m2])
  from a b have ls: "loop_stack sta = loop_stack st" "loop_stack stb = loop_stack sta"
    by (simp_all add: stmts_effect_def)
  have l: "mset (stmts_labels (a @ b))
             = image_mset src_label (mset (la @ lb)) + synth_labels st stb"
    using a b by (simp add: stmts_effect_def stmts_labels_append s)
  have g: "set (stmts_gotos (a @ b))
             \<subseteq> src_label ` set (ga @ gb) \<union> snd ` set (loop_stack st)
                 \<union> set_mset (synth_labels st stb)"
    using a b ls unfolding stmts_effect_def stmts_gotos_append s by auto
  show ?thesis
    unfolding stmts_effect_def
    using a b l g ls counters_mono_trans [OF m1 m2]
    by (simp add: stmts_effect_def stmts_split_free_append)
qed

lemma synth_labels_tmp_vars:
  "tmp_vars a' = tmp_vars a \<Longrightarrow> tmp_vars b' = tmp_vars b \<Longrightarrow>
   synth_labels a' b' = synth_labels a b"
  by (simp add: synth_labels_def)

lemma counters_mono_tmp_vars:
  "tmp_vars a' = tmp_vars a \<Longrightarrow> tmp_vars b' = tmp_vars b \<Longrightarrow>
   counters_mono a' b' = counters_mono a b"
  by (simp add: counters_mono_def)

lemma stmts_effect_loop:
  assumes f: "fresh_name base st = (nm, sta)"
    and base: "base = ''exit_loop'' \<or> base = ''exit_while_loop''"
    and body: "stmts_effect (loop_stack_append (n, Label nm None) sta) body stb ls gs"
    and pop: "loop_stack_pop stb = Inr stc"
    and lab: "mset (stmts_labels out) = mset (stmts_labels body) + {#Label nm None#}"
    and gotos: "set (stmts_gotos out) = set (stmts_gotos body)"
    and mb: "stmts_split_free out"
  shows "stmts_effect st out stc ls gs"
proof -
  let ?k = "tmp_vars st base"
  let ?A = "loop_stack_append (n, Label nm None) sta"
  from f have nm: "Label nm None = synth_label base ?k"
    and sta: "sta = st\<lparr>tmp_vars := (tmp_vars st)(base := Suc ?k)\<rparr>"
    by (auto simp: fresh_name_def get_incr_def synth_label_def)
  have tA: "tmp_vars ?A = tmp_vars sta" and lA: "loop_stack ?A = loop_stack st @ [(n, Label nm None)]"
    by (simp_all add: loop_stack_append_def sta)
  from body have lb: "loop_stack stb = loop_stack ?A" and mono: "counters_mono ?A stb"
    by (simp_all add: stmts_effect_def)
  from pop lb lA have stc: "stc = stb\<lparr>loop_stack := butlast (loop_stack stb)\<rparr>"
    by (auto simp: loop_stack_pop_def split: if_splits)
  then have tc: "tmp_vars stc = tmp_vars stb" and lc: "loop_stack stc = loop_stack st"
    using lb lA by simp_all
  have m1: "counters_mono st sta" by (simp add: counters_mono_def sta)
  have m2: "counters_mono sta stc"
    using mono counters_mono_tmp_vars [OF tA tc [symmetric]] tc
    by (simp add: counters_mono_def tA)
  have s1: "synth_labels st sta = {#synth_label base ?k#}"
    using base by (auto simp: synth_labels_def sta)
  have s2: "synth_labels ?A stb = synth_labels sta stc"
    by (simp add: synth_labels_def tA tc)
  have s: "synth_labels st stc = {#synth_label base ?k#} + synth_labels ?A stb"
    using synth_labels_add [OF m1 m2] s1 s2 by simp
  have l: "mset (stmts_labels out) = image_mset src_label (mset ls) + synth_labels st stc"
    using body lab by (simp add: stmts_effect_def s nm)
  have g: "set (stmts_gotos out)
             \<subseteq> src_label ` set gs \<union> snd ` set (loop_stack st) \<union> set_mset (synth_labels st stc)"
  proof -
    have "set (stmts_gotos body)
            \<subseteq> src_label ` set gs \<union> snd ` set (loop_stack st @ [(n, Label nm None)])
                \<union> set_mset (synth_labels ?A stb)"
      using body by (simp add: stmts_effect_def lA)
    then show ?thesis unfolding gotos s nm by auto
  qed
  show ?thesis
    unfolding stmts_effect_def using mb lc l g counters_mono_trans [OF m1 m2] by simp
qed

lemma transform_stmts_effect_aux:
  assumes "\<And>s st out st'. s \<in> set ss \<Longrightarrow> transform_stmt ctx labels s st = Inr (out, st') \<Longrightarrow>
             stmts_effect st out st' (reached_labels s) (reached_gotos s)"
  shows "transform_stmts ctx labels ss st = Inr (out, st') \<Longrightarrow>
         stmts_effect st out st' (reached_labels_list ss) (reached_gotos_list ss)"
  using assms
proof (induction ss arbitrary: st out)
  case Nil
  then show ?case by (simp add: stmts_effect_nil)
next
  case (Cons s ss)
  from Cons.prems(1) obtain r1 sta r2 where
    s: "transform_stmt ctx labels s st = Inr (r1, sta)"
    and ss: "transform_stmts ctx labels ss sta = Inr (r2, st')" and out: "out = r1 @ r2"
    by (auto split: sum.splits prod.splits)
  have e1: "stmts_effect st r1 sta (reached_labels s) (reached_gotos s)"
    using Cons.prems(2) [OF _ s] by simp
  have e2: "stmts_effect sta r2 st' (reached_labels_list ss) (reached_gotos_list ss)"
    using Cons.IH [OF ss] Cons.prems(2) by simp
  show ?case unfolding out using stmts_effect_append [OF e1 e2] by simp
qed


lemma transform_stmt_LoopStmt_Inr:
  assumes "transform_stmt ctx labels (lal_LoopStmt n body) st = Inr (out, st')"
  obtains nm sta loop_stmts stb where
    "fresh_name ''exit_loop'' st = (nm, sta)"
    and "transform_stmts ctx labels body (loop_stack_append (n, Label nm None) sta)
           = Inr (loop_stmts, stb)"
    and "loop_stack_pop stb = Inr st'"
    and "out = [LoopStmt loop_stmts, LabelStmt (Label nm None)]"
proof -
  obtain nm sta where f: "fresh_name ''exit_loop'' st = (nm, sta)"
    by (cases "fresh_name ''exit_loop'' st")
  from assms f show ?thesis
    by (auto simp: Let_def split: sum.splits prod.splits intro: that)
qed

lemma transform_stmt_WhileLoopStmt_Inr:
  assumes "transform_stmt ctx labels (lal_WhileLoopStmt n c body) st = Inr (out, st')"
  obtains cp cond sta nm stb loop_stmts stc where
    "transform_expr c st = Inr ((cp, cond), sta)"
    and "fresh_name ''exit_while_loop'' sta = (nm, stb)"
    and "transform_stmts ctx labels body (loop_stack_append (n, Label nm None) stb)
           = Inr (loop_stmts, stc)"
    and "loop_stack_pop stc = Inr st'"
    and "out = [LoopStmt (cp @ [AssumeStmt cond None] @ loop_stmts),
                AssumeStmt (UnExpr (Operator NOT) cond (type_hint cond)) None,
                LabelStmt (Label nm None)]"
proof -
  from assms obtain cp cond sta where c: "transform_expr c st = Inr ((cp, cond), sta)"
    by (auto split: sum.splits prod.splits)
  obtain nm stb where f: "fresh_name ''exit_while_loop'' sta = (nm, stb)"
    by (cases "fresh_name ''exit_while_loop'' sta")
  from assms c f show ?thesis
    by (auto simp: Let_def un_ops_item_NOT split: sum.splits prod.splits intro: that)
qed

lemma transform_stmt_ExitStmt_Inr:
  assumes "transform_stmt ctx labels (lal_ExitStmt loop_name condition) st = Inr (out, st')"
  obtains lbl where "lbl \<in> snd ` set (loop_stack st)"
    and "condition = None" and "out = [GotoStmt lbl]" and "st' = st"
proof -
  from assms obtain exited_loop where
    e: "(case loop_name of None \<Rightarrow> loop_stack_top st
          | Some ref_loop \<Rightarrow> loop_stack_next ref_loop st) = Inr exited_loop"
    by (auto simp del: gen_split_stmt.simps split: sum.splits)
  have m: "exited_loop \<in> set (loop_stack st)"
  proof (cases loop_name)
    case None
    with e show ?thesis by (auto simp: loop_stack_top_def split: if_splits)
  next
    case (Some ref_loop)
    with e show ?thesis
      by (auto simp: loop_stack_next_def find_Some_iff split: option.splits)
  qed
  have n: "condition = None"
  proof (cases condition)
    case (Some c)
    with assms e have "gen_split_stmt c [GotoStmt (snd exited_loop)] [] st = Inr (out, st')"
      by (simp add: Let_def del: gen_split_stmt.simps)
    with gen_split_stmt_raises [of c "[GotoStmt (snd exited_loop)]" "[]" st] show ?thesis
      by auto
  qed simp
  with assms e have "out = [GotoStmt (snd exited_loop)]" and "st' = st"
    by (simp_all add: Let_def del: gen_split_stmt.simps)
  with m n show ?thesis by (intro that [of "snd exited_loop"]) auto
qed

lemma stmts_effect_goto:
  "lbl \<in> snd ` set (loop_stack st) \<Longrightarrow> stmts_effect st [GotoStmt lbl] st [] []"
  by (simp add: stmts_effect_def counters_mono_refl synth_labels_same)

text \<open>
  The effect of the lowering of one statement, by induction on the statement. An if
  statement, a case statement and an exit statement with a condition do not lower.
\<close>

lemma transform_stmt_effect:
  assumes labels: "labels_from_decls labels"
  shows "\<forall>st out st'. transform_stmt ctx labels s st = Inr (out, st') \<longrightarrow>
           stmts_effect st out st' (reached_labels s) (reached_gotos s)"
proof (induction s)
  case (lal_AssignStmt d tx t e)
  show ?case
  proof (intro allI impI)
    fix st out st'
    assume "transform_stmt ctx labels (lal_AssignStmt d tx t e) st = Inr (out, st')"
    then obtain pre ire v where e: "transform_expr e st = Inr ((pre, ire), st')"
      and out: "out = pre @ [AssignStmt (Identifier v t) ire]"
      by (auto split: sum.splits prod.splits option.splits)
    from transform_expr_plain(1) e have "st' = st \<and> plain_stmts pre" by blast
    then have "st' = st" and "plain_stmts out"
      unfolding out by (simp_all add: plain_stmts_simps)
    then show "stmts_effect st out st' (reached_labels (lal_AssignStmt d tx t e))
                 (reached_gotos (lal_AssignStmt d tx t e))"
      by (simp add: stmts_effect_plain)
  qed
next
  case (lal_IfStmt c then_stmts alternatives else_stmts)
  show ?case
  proof (intro allI impI)
    fix st out st'
    assume "transform_stmt ctx labels (lal_IfStmt c then_stmts alternatives else_stmts) st
              = Inr (out, st')"
    with transform_stmt_IfStmt_raises [of ctx labels c then_stmts alternatives else_stmts st]
    show "stmts_effect st out st'
            (reached_labels (lal_IfStmt c then_stmts alternatives else_stmts))
            (reached_gotos (lal_IfStmt c then_stmts alternatives else_stmts))"
      by (auto simp del: transform_stmt.simps)
  qed
next
  case (lal_CaseStmt sel alts)
  show ?case
  proof (intro allI impI)
    fix st out st'
    assume "transform_stmt ctx labels (lal_CaseStmt sel alts) st = Inr (out, st')"
    with transform_stmt_CaseStmt_raises [of ctx labels sel alts st]
    show "stmts_effect st out st' (reached_labels (lal_CaseStmt sel alts))
            (reached_gotos (lal_CaseStmt sel alts))"
      by (auto simp del: transform_stmt.simps)
  qed
next
  case (lal_LoopStmt n body)
  show ?case
  proof (intro allI impI)
    fix st out st'
    assume "transform_stmt ctx labels (lal_LoopStmt n body) st = Inr (out, st')"
    then obtain nm sta loop_stmts stb where
      f: "fresh_name ''exit_loop'' st = (nm, sta)"
      and b: "transform_stmts ctx labels body (loop_stack_append (n, Label nm None) sta)
                = Inr (loop_stmts, stb)"
      and p: "loop_stack_pop stb = Inr st'"
      and out: "out = [LoopStmt loop_stmts, LabelStmt (Label nm None)]"
      by (rule transform_stmt_LoopStmt_Inr)
    have eb: "stmts_effect (loop_stack_append (n, Label nm None) sta) loop_stmts stb
                (reached_labels_list body) (reached_gotos_list body)"
      using lal_LoopStmt by (intro transform_stmts_effect_aux [OF _ b]) blast
    then have mb: "stmts_split_free loop_stmts" by (simp add: stmts_effect_def)
    have "stmts_effect st out st' (reached_labels_list body) (reached_gotos_list body)"
      using mb unfolding out
      by (intro stmts_effect_loop [OF f _ eb p]) simp_all
    then show "stmts_effect st out st' (reached_labels (lal_LoopStmt n body))
                 (reached_gotos (lal_LoopStmt n body))"
      by simp
  qed
next
  case (lal_WhileLoopStmt n c body)
  show ?case
  proof (intro allI impI)
    fix st out st'
    assume "transform_stmt ctx labels (lal_WhileLoopStmt n c body) st = Inr (out, st')"
    then obtain cp cond sta nm stb loop_stmts stc where
      c: "transform_expr c st = Inr ((cp, cond), sta)"
      and f: "fresh_name ''exit_while_loop'' sta = (nm, stb)"
      and b: "transform_stmts ctx labels body (loop_stack_append (n, Label nm None) stb)
                = Inr (loop_stmts, stc)"
      and p: "loop_stack_pop stc = Inr st'"
      and out: "out = [LoopStmt (cp @ [AssumeStmt cond None] @ loop_stmts),
                       AssumeStmt (UnExpr (Operator NOT) cond (type_hint cond)) None,
                       LabelStmt (Label nm None)]"
      by (rule transform_stmt_WhileLoopStmt_Inr)
    from transform_expr_plain(1) c have sta: "sta = st" and pc: "plain_stmts cp" by blast+
    have eb: "stmts_effect (loop_stack_append (n, Label nm None) stb) loop_stmts stc
                (reached_labels_list body) (reached_gotos_list body)"
      using lal_WhileLoopStmt by (intro transform_stmts_effect_aux [OF _ b]) blast
    then have mb: "stmts_split_free loop_stmts" by (simp add: stmts_effect_def)
    have "stmts_effect sta out st' (reached_labels_list body) (reached_gotos_list body)"
      using mb pc unfolding out
      by (intro stmts_effect_loop [OF f _ eb p])
         (simp_all add: stmts_labels_append stmts_gotos_append stmts_split_free_append
            plain_stmts_def)
    then show "stmts_effect st out st' (reached_labels (lal_WhileLoopStmt n c body))
            (reached_gotos (lal_WhileLoopStmt n c body))"
      by (simp add: sta)
  qed
next
  case (lal_ForLoopStmt n body)
  show ?case by (simp add: stmts_effect_nil)
next
  case (lal_Label decl)
  show ?case
  proof (intro allI impI)
    fix st out st'
    assume "transform_stmt ctx labels (lal_Label decl) st = Inr (out, st')"
    then obtain lbl where l: "labels decl = Some lbl" and out: "out = [LabelStmt lbl]"
      and st': "st' = st"
      by (auto split: option.splits)
    from labels l have "lbl = src_label decl" unfolding labels_from_decls_def by blast
    then show "stmts_effect st out st' (reached_labels (lal_Label decl))
                 (reached_gotos (lal_Label decl))"
      unfolding out st'
      by (simp add: stmts_effect_def counters_mono_refl synth_labels_same)
  qed
next
  case (lal_GotoStmt decl)
  show ?case
  proof (intro allI impI)
    fix st out st'
    assume "transform_stmt ctx labels (lal_GotoStmt decl) st = Inr (out, st')"
    then obtain lbl where l: "labels decl = Some lbl" and out: "out = [GotoStmt lbl]"
      and st': "st' = st"
      by (auto split: option.splits)
    from labels l have "lbl = src_label decl" unfolding labels_from_decls_def by blast
    then show "stmts_effect st out st' (reached_labels (lal_GotoStmt decl))
                 (reached_gotos (lal_GotoStmt decl))"
      unfolding out st'
      by (simp add: stmts_effect_def counters_mono_refl synth_labels_same)
  qed
next
  case (lal_NamedStmt s)
  then show ?case by simp
next
  case (lal_ExitStmt loop_name condition)
  show ?case
  proof (intro allI impI)
    fix st out st'
    assume "transform_stmt ctx labels (lal_ExitStmt loop_name condition) st = Inr (out, st')"
    then obtain lbl where m: "lbl \<in> snd ` set (loop_stack st)"
      and out: "out = [GotoStmt lbl]" and st': "st' = st"
      by (rule transform_stmt_ExitStmt_Inr)
    from stmts_effect_goto [OF m]
    show "stmts_effect st out st' (reached_labels (lal_ExitStmt loop_name condition))
                 (reached_gotos (lal_ExitStmt loop_name condition))"
      unfolding out st' by simp
  qed
next
  case (lal_ExceptionHandler body)
  show ?case by (simp add: stmts_effect_nil)
next
  case (lal_OtherStmt tx cls)
  show ?case by simp
qed

lemma str_nat_nonempty: "str_nat n \<noteq> []"
  by (subst str_nat.simps) simp

lemma digit_char_inj:
  assumes "a < 10" "b < 10" "digit_char a = digit_char b"
  shows "a = b"
proof -
  from assms(1) have a: "a \<in> {0, 1, 2, 3, 4, 5, 6, 7, 8, 9}" by auto
  from assms(2) have b: "b \<in> {0, 1, 2, 3, 4, 5, 6, 7, 8, 9}" by auto
  from a b assms(3) show ?thesis
    by (auto simp: digit_char_def)
qed

lemma str_nat_inj: "str_nat n = str_nat m \<Longrightarrow> n = m"
proof (induction n arbitrary: m rule: less_induct)
  case (less n)
  show ?case
  proof (cases "n < 10")
    case n: True
    show ?thesis
    proof (cases "m < 10")
      case True
      with n less.prems show ?thesis
        by (simp add: str_nat.simps [of n] str_nat.simps [of m] digit_char_inj)
    next
      case False
      with n less.prems str_nat_nonempty [of "m div 10"] show ?thesis
        by (simp add: str_nat.simps [of n] str_nat.simps [of m] Cons_eq_append_conv)
    qed
  next
    case n: False
    show ?thesis
    proof (cases "m < 10")
      case True
      with n less.prems str_nat_nonempty [of "n div 10"] show ?thesis
        by (simp add: str_nat.simps [of n] str_nat.simps [of m] append_eq_Cons_conv)
    next
      case False
      with n less.prems have d: "str_nat (n div 10) = str_nat (m div 10)"
        and c: "digit_char (n mod 10) = digit_char (m mod 10)"
        by (simp_all add: str_nat.simps [of n] str_nat.simps [of m])
      from n have "n div 10 < n" by simp
      from less.IH [OF this d] have q: "n div 10 = m div 10" .
      from c have r: "n mod 10 = m mod 10" by (intro digit_char_inj) simp_all
      from q r show ?thesis by (metis div_mult_mod_eq)
    qed
  qed
qed

lemma synth_label_inj: "synth_label base a = synth_label base b \<Longrightarrow> a = b"
  by (simp add: synth_label_def str_nat_inj)

lemma synth_label_bases: "synth_label ''exit_loop'' a \<noteq> synth_label ''exit_while_loop'' b"
  by (simp add: synth_label_def)

lemma src_label_inj: "src_label a = src_label b \<Longrightarrow> a = b"
  by (simp add: src_label_def)

lemma src_label_not_exit: "src_label d \<noteq> synth_label base k"
  by (simp add: src_label_def synth_label_def)

lemma count_synth_labels:
  "count (synth_labels st st') lbl = (if lbl \<in># synth_labels st st' then 1 else 0)"
proof -
  let ?xs = "map (synth_label ''exit_loop'') [tmp_vars st ''exit_loop''..<tmp_vars st' ''exit_loop'']"
  let ?ys = "map (synth_label ''exit_while_loop'')
               [tmp_vars st ''exit_while_loop''..<tmp_vars st' ''exit_while_loop'']"
  have "distinct ?xs" "distinct ?ys"
    by (auto simp: distinct_map inj_on_def dest: synth_label_inj)
  moreover have "set ?xs \<inter> set ?ys = {}"
    using synth_label_bases by auto
  ultimately have "distinct (?xs @ ?ys)" by simp
  then have "count (mset (?xs @ ?ys)) lbl = (if lbl \<in> set (?xs @ ?ys) then 1 else 0)"
    by (simp only: distinct_count_atmost_1)
  then show ?thesis by (simp add: synth_labels_def)
qed

lemma src_label_not_synth: "src_label d \<notin># synth_labels st st'"
  by (auto simp: synth_labels_def src_label_def synth_label_def)

lemma synth_not_src: "lbl \<in># synth_labels st st' \<Longrightarrow> lbl \<notin> src_label ` set ls"
  using src_label_not_synth by auto

lemma count_src_labels:
  "distinct ls \<Longrightarrow> count (image_mset src_label (mset ls)) (src_label d)
     = (if d \<in> set ls then 1 else 0)"
proof -
  assume "distinct ls"
  then have "distinct (map src_label ls)"
    by (auto simp: distinct_map inj_on_def dest: src_label_inj)
  then have "count (mset (map src_label ls)) (src_label d)
               = (if src_label d \<in> set (map src_label ls) then 1 else 0)"
    by (simp only: distinct_count_atmost_1)
  then show ?thesis by (auto dest: src_label_inj)
qed

lemma stmts_effect_goto_targets:
  assumes e: "stmts_effect st out st' ls gs" and stack: "loop_stack st = []"
    and d: "distinct ls" and sub: "set gs \<subseteq> set ls"
    and g: "lbl \<in> set (stmts_gotos out)"
  shows "count_list (stmts_labels out) lbl = 1"
proof -
  from e have l: "mset (stmts_labels out) = image_mset src_label (mset ls) + synth_labels st st'"
    and gs: "set (stmts_gotos out)
               \<subseteq> src_label ` set gs \<union> snd ` set (loop_stack st) \<union> set_mset (synth_labels st st')"
    by (simp_all add: stmts_effect_def)
  have c: "count_list (stmts_labels out) lbl
             = count (image_mset src_label (mset ls)) lbl + count (synth_labels st st') lbl"
    using l by (metis count_mset count_union)
  from g gs stack have "lbl \<in> src_label ` set gs \<or> lbl \<in># synth_labels st st'" by auto
  then show ?thesis
  proof
    assume "lbl \<in> src_label ` set gs"
    then obtain dd where dd: "lbl = src_label dd" "dd \<in> set gs" by auto
    with sub have "dd \<in> set ls" by auto
    with count_src_labels [OF d, of dd] src_label_not_synth [of dd st st'] dd c
    show ?thesis by (simp add: count_eq_zero_iff)
  next
    assume s: "lbl \<in># synth_labels st st'"
    then have "count (image_mset src_label (mset ls)) lbl = 0"
      using synth_not_src [OF s, of ls] by (simp add: count_eq_zero_iff)
    with count_synth_labels [of st st' lbl] s c show ?thesis by simp
  qed
qed

lemma register_ids_fields:
  "tmp_vars (register_ids d ids t st) = tmp_vars st"
  "loop_stack (register_ids d ids t st) = loop_stack st"
  unfolding register_ids_def by (induction ids arbitrary: st) simp_all

lemma stmts_effect_state_cong:
  "stmts_effect sta out st' ls gs \<Longrightarrow> tmp_vars st = tmp_vars sta \<Longrightarrow>
   loop_stack st = loop_stack sta \<Longrightarrow> stmts_effect st out st' ls gs"
  by (simp add: stmts_effect_def counters_mono_def synth_labels_def)

lemma map_err_plain:
  "map_err f xs = Inr out \<Longrightarrow> (\<And>x y. f x = Inr y \<Longrightarrow> plain_stmts [y]) \<Longrightarrow> plain_stmts out"
proof (induction xs arbitrary: out)
  case Nil
  then show ?case by (simp add: plain_stmts_simps)
next
  case (Cons x xs)
  from Cons.prems(1) obtain y ys where y: "f x = Inr y" and ys: "map_err f xs = Inr ys"
    and out: "out = y # ys"
    by (auto split: sum.splits)
  from Cons.prems(2) [OF y] Cons.IH [OF ys Cons.prems(2)]
  have "plain_stmts ([y] @ ys)" by (simp only: plain_stmts_simps)
  then show ?case unfolding out by simp
qed

lemma transform_decl_effect:
  assumes "transform_decl d st = Inr (out, st')"
  shows "stmts_effect st out st' [] []"
proof (cases d)
  case lal_TypeDecl
  with assms show ?thesis by (simp add: stmts_effect_nil)
next
  case lal_NumberDecl
  with assms show ?thesis by (simp add: stmts_effect_nil)
next
  case (lal_ObjectDecl n ids tdecl default_expr)
  let ?sta = "register_ids n ids tdecl st"
  have "stmts_effect ?sta out st' [] []"
  proof (cases default_expr)
    case None
    with assms lal_ObjectDecl obtain reads where
      r: "map_err (\<lambda>var_id. case lookup_var ?sta n var_id of
                     Inl err \<Rightarrow> Inl err
                   | Inr v \<Rightarrow> Inr (ReadStmt (Identifier v tdecl))) ids = Inr reads"
      and out: "out = reads" and st': "st' = ?sta"
      by (auto simp: Let_def split: sum.splits)
    have "plain_stmts reads"
      by (rule map_err_plain [OF r]) (auto simp: plain_stmts_def split: sum.splits)
    then show ?thesis
      unfolding out st' by (rule stmts_effect_plain)
  next
    case (Some dexpr)
    with assms lal_ObjectDecl obtain pre dval assigns where
      e: "transform_expr dexpr ?sta = Inr ((pre, dval), st')"
      and a: "map_err (\<lambda>var_id. case lookup_var st' n var_id of
                     Inl err \<Rightarrow> Inl err
                   | Inr v \<Rightarrow> Inr (AssignStmt (Identifier v tdecl) dval)) ids = Inr assigns"
      and out: "out = pre @ assigns"
      by (auto simp: Let_def split: sum.splits prod.splits)
    have pa: "plain_stmts assigns"
      by (rule map_err_plain [OF a]) (auto simp: plain_stmts_def split: sum.splits)
    from transform_expr_plain(1) e have "st' = ?sta" and "plain_stmts pre" by blast+
    with pa show ?thesis
      unfolding out by (simp add: stmts_effect_plain plain_stmts_simps)
  qed
  then show ?thesis
    by (rule stmts_effect_state_cong) (simp_all add: register_ids_fields)
next
  case (lal_OtherDecl tx cls)
  with assms show ?thesis by simp
qed

lemma transform_decls_effect:
  "transform_decls ds st = Inr (out, st') \<Longrightarrow> stmts_effect st out st' [] []"
proof (induction ds arbitrary: st out)
  case Nil
  then show ?case by (simp add: stmts_effect_nil)
next
  case (Cons d ds)
  from Cons.prems obtain r1 sta r2 where d: "transform_decl d st = Inr (r1, sta)"
    and ds: "transform_decls ds sta = Inr (r2, st')" and out: "out = r1 @ r2"
    by (auto split: sum.splits prod.splits)
  from stmts_effect_append [OF transform_decl_effect [OF d] Cons.IH [OF ds]]
  show ?case unfolding out by simp
qed

lemma gen_labels_from_decls: "labels_from_decls (gen_labels decls)"
  unfolding labels_from_decls_def gen_labels_def src_label_def
  by (auto dest!: map_of_SomeD)

lemma gen_ir_effect:
  assumes "gen_ir ctx (lal_SubpBody decls stmts label_decls) = Inr (Program out)"
  shows "\<exists>st'. stmts_effect initial_lowering out st'
                 (reached_labels_list stmts) (reached_gotos_list stmts)"
proof -
  from assms obtain ir_decls sta ir_stmts stb where
    d: "transform_decls decls initial_lowering = Inr (ir_decls, sta)"
    and s: "transform_stmts ctx (gen_labels label_decls) stmts sta = Inr (ir_stmts, stb)"
    and out: "out = ir_decls @ ir_stmts"
    by (auto split: sum.splits prod.splits)
  have e: "stmts_effect sta ir_stmts stb (reached_labels_list stmts) (reached_gotos_list stmts)"
    using transform_stmt_effect [OF gen_labels_from_decls]
    by (intro transform_stmts_effect_aux [OF _ s]) blast
  from stmts_effect_append [OF transform_decls_effect [OF d] e]
  show ?thesis unfolding out by auto
qed

section \<open>Split statements in the lowering\<close>

text \<open>
  C1. The claim has every split of a lowered program hold a list of two or more branches,
  built from the one list the call sites pass. The split of \<^verbatim>\<open>tree.py\<close> has two lists of
  statements, and the call with one list raises \<^verbatim>\<open>TypeError\<close>: \<^verbatim>\<open>gen_split_stmt\<close> fails on
  every input, an if statement and a case statement do not lower, and a program that
  lowers has no split. The subprogram
  \<^verbatim>\<open>X, Y : Integer; begin if X = 1 then Y := 10; else Y := 20; end if; end\<close> is not lowered.
\<close>

theorem split_statements_are_not_built:
  "(\<exists>err. gen_split_stmt c then_stmts else_stmts st = Inl err)
   \<and> (\<exists>err. transform_stmt ctx labels (lal_IfStmt c then_part alternatives else_part) st
               = Inl err)
   \<and> (\<exists>err. transform_stmt ctx labels (lal_CaseStmt sel alts) st = Inl err)
   \<and> (gen_ir ctx subp = Inr p \<longrightarrow> program_split_free p)
   \<and> gen_ir ctx_example
        (lal_SubpBody [lal_ObjectDecl 7 [''X'', ''Y''] StdInteger None]
           [lal_IfStmt
              (lal_BinOp (lal_Identifier ''X'' (ref_ObjectDecl 7) StdInteger) OpEq
                 (lal_IntLiteral ''1'' UniversalInt) StdBoolean)
              [lal_AssignStmt 7 ''Y'' StdInteger (lal_IntLiteral ''10'' UniversalInt)] []
              [lal_AssignStmt 7 ''Y'' StdInteger (lal_IntLiteral ''20'' UniversalInt)]] [])
       = Inl TypeError"
proof (intro conjI impI)
  show "\<exists>err. gen_split_stmt c then_stmts else_stmts st = Inl err"
    by (rule gen_split_stmt_raises)
  show "\<exists>err. transform_stmt ctx labels (lal_IfStmt c then_part alternatives else_part) st
               = Inl err"
    by (rule transform_stmt_IfStmt_raises)
  show "\<exists>err. transform_stmt ctx labels (lal_CaseStmt sel alts) st = Inl err"
    by (rule transform_stmt_CaseStmt_raises)
next
  assume g: "gen_ir ctx subp = Inr p"
  obtain out where p: "p = Program out" by (cases p)
  show "program_split_free p"
  proof (cases subp)
    case (lal_SubpBody decls body label_decls)
    from gen_ir_effect [OF g [unfolded lal_SubpBody p]] show ?thesis
      unfolding p by (auto simp: stmts_effect_def)
  next
    case (lal_ExprFunction e label_decls)
    with g show ?thesis by simp
  qed
next
  show "gen_ir ctx_example
        (lal_SubpBody [lal_ObjectDecl 7 [''X'', ''Y''] StdInteger None]
           [lal_IfStmt
              (lal_BinOp (lal_Identifier ''X'' (ref_ObjectDecl 7) StdInteger) OpEq
                 (lal_IntLiteral ''1'' UniversalInt) StdBoolean)
              [lal_AssignStmt 7 ''Y'' StdInteger (lal_IntLiteral ''10'' UniversalInt)] []
              [lal_AssignStmt 7 ''Y'' StdInteger (lal_IntLiteral ''20'' UniversalInt)]] [])
       = Inl TypeError"
    by code_simp
qed

theorem split_statements_are_not_built_witness:
  "gen_ir ctx_example
     (lal_SubpBody [lal_ObjectDecl 7 [''X'', ''Y''] StdInteger None]
        [lal_WhileLoopStmt 9
           (lal_BinOp (lal_Identifier ''X'' (ref_ObjectDecl 7) StdInteger) OpLt
              (lal_IntLiteral ''3'' UniversalInt) StdBoolean)
           [lal_AssignStmt 7 ''Y'' StdInteger (lal_IntLiteral ''1'' UniversalInt)]] [])
   = Inr (Program
       [ReadStmt (Identifier (Variable ''X'' None StdInteger) StdInteger),
        ReadStmt (Identifier (Variable ''Y'' None StdInteger) StdInteger),
        LoopStmt
         [AssumeStmt
            (BinExpr (Identifier (Variable ''X'' None StdInteger) StdInteger)
               (Operator LT) (Lit (VInt 3) UniversalInt) StdBoolean) None,
          AssignStmt (Identifier (Variable ''Y'' None StdInteger) StdInteger)
            (Lit (VInt 1) UniversalInt)],
        AssumeStmt
          (UnExpr (Operator NOT)
             (BinExpr (Identifier (Variable ''X'' None StdInteger) StdInteger)
                (Operator LT) (Lit (VInt 3) UniversalInt) StdBoolean) StdBoolean) None,
        LabelStmt (Label ''exit_while_loop0'' None)])
   \<and> program_split_free (Program
       [ReadStmt (Identifier (Variable ''X'' None StdInteger) StdInteger),
        ReadStmt (Identifier (Variable ''Y'' None StdInteger) StdInteger),
        LoopStmt
         [AssumeStmt
            (BinExpr (Identifier (Variable ''X'' None StdInteger) StdInteger)
               (Operator LT) (Lit (VInt 3) UniversalInt) StdBoolean) None,
          AssignStmt (Identifier (Variable ''Y'' None StdInteger) StdInteger)
            (Lit (VInt 1) UniversalInt)],
        AssumeStmt
          (UnExpr (Operator NOT)
             (BinExpr (Identifier (Variable ''X'' None StdInteger) StdInteger)
                (Operator LT) (Lit (VInt 3) UniversalInt) StdBoolean) StdBoolean) None,
        LabelStmt (Label ''exit_while_loop0'' None)])"
  (is "?g \<and> ?f")
proof -
  have g: ?g by code_simp
  from split_statements_are_not_built [where ctx = ctx_example] g have ?f by blast
  with g show ?thesis by blast
qed

section \<open>The short-circuit operators\<close>

text \<open>
  C2. The claim has \<^verbatim>\<open>and then\<close> and \<^verbatim>\<open>or else\<close> lower to a split in a split that assigns
  the truth table to a temporary. \<^verbatim>\<open>transform_short_circuit_ops\<close> builds the inner split
  first, with \<^verbatim>\<open>gen_split_stmt\<close>, which fails: no expression with a short-circuit operator
  lowers. For two boolean variables \<open>A\<close> and \<open>B\<close>, \<^verbatim>\<open>A and then B\<close> and \<^verbatim>\<open>A or else B\<close> raise
  \<^verbatim>\<open>TypeError\<close>, and so does the subprogram that assigns one of them.
\<close>

theorem short_circuit_lowering_raises:
  "(\<exists>err. transform_short_circuit_ops e st = Inl err)
   \<and> (\<exists>err. transform_expr (lal_BinOp l OpAndThen r t) st = Inl err)
   \<and> (\<exists>err. transform_expr (lal_BinOp l OpOrElse r t) st = Inl err)
   \<and> transform_expr
        (lal_BinOp (lal_Identifier ''A'' (ref_ObjectDecl 8) StdBoolean) OpAndThen
           (lal_Identifier ''B'' (ref_ObjectDecl 8) StdBoolean) StdBoolean)
        (register_ids 8 [''A'', ''B'', ''C''] StdBoolean initial_lowering) = Inl TypeError
   \<and> transform_expr
        (lal_BinOp (lal_Identifier ''A'' (ref_ObjectDecl 8) StdBoolean) OpOrElse
           (lal_Identifier ''B'' (ref_ObjectDecl 8) StdBoolean) StdBoolean)
        (register_ids 8 [''A'', ''B'', ''C''] StdBoolean initial_lowering) = Inl TypeError
   \<and> gen_ir ctx_example
        (lal_SubpBody [lal_ObjectDecl 8 [''A'', ''B'', ''C''] StdBoolean None]
           [lal_AssignStmt 8 ''C'' StdBoolean
              (lal_BinOp (lal_Identifier ''A'' (ref_ObjectDecl 8) StdBoolean) OpAndThen
                 (lal_Identifier ''B'' (ref_ObjectDecl 8) StdBoolean) StdBoolean)] [])
       = Inl TypeError"
proof (intro conjI)
  show "\<exists>err. transform_short_circuit_ops e st = Inl err"
    by (rule transform_short_circuit_ops_raises)
  show "\<exists>err. transform_expr (lal_BinOp l OpAndThen r t) st = Inl err"
    using transform_short_circuit_ops_raises [of "lal_BinOp l OpAndThen r t" st]
    by (simp del: transform_short_circuit_ops.simps)
  show "\<exists>err. transform_expr (lal_BinOp l OpOrElse r t) st = Inl err"
    using transform_short_circuit_ops_raises [of "lal_BinOp l OpOrElse r t" st]
    by (simp del: transform_short_circuit_ops.simps)
  have vd: "var_decls (register_ids 8 [''A'', ''B'', ''C''] StdBoolean initial_lowering) (8, ''B'')
              = Some (Variable ''B'' None StdBoolean)"
    by (simp add: register_ids_def initial_lowering_def)
  have b: "transform_expr (lal_Identifier ''B'' (ref_ObjectDecl 8) StdBoolean) sta
             = Inr (([], Identifier (Variable ''B'' None StdBoolean) StdBoolean), sta)"
    if "var_decls sta = var_decls (register_ids 8 [''A'', ''B'', ''C''] StdBoolean initial_lowering)"
    for sta
    using that vd by simp
  have f: "var_decls (snd (fresh_name ''tmp'' sta)) = var_decls sta" for sta
    by (simp add: fresh_name_def get_incr_def)
  show "transform_expr
        (lal_BinOp (lal_Identifier ''A'' (ref_ObjectDecl 8) StdBoolean) OpAndThen
           (lal_Identifier ''B'' (ref_ObjectDecl 8) StdBoolean) StdBoolean)
        (register_ids 8 [''A'', ''B'', ''C''] StdBoolean initial_lowering) = Inl TypeError"
    using gen_split_stmt_TypeError [OF b [OF f]]
    by (simp add: Let_def split_beta del: gen_split_stmt.simps)
  show "transform_expr
        (lal_BinOp (lal_Identifier ''A'' (ref_ObjectDecl 8) StdBoolean) OpOrElse
           (lal_Identifier ''B'' (ref_ObjectDecl 8) StdBoolean) StdBoolean)
        (register_ids 8 [''A'', ''B'', ''C''] StdBoolean initial_lowering) = Inl TypeError"
    using gen_split_stmt_TypeError [OF b [OF f]]
    by (simp add: Let_def split_beta del: gen_split_stmt.simps)
  show "gen_ir ctx_example
        (lal_SubpBody [lal_ObjectDecl 8 [''A'', ''B'', ''C''] StdBoolean None]
           [lal_AssignStmt 8 ''C'' StdBoolean
              (lal_BinOp (lal_Identifier ''A'' (ref_ObjectDecl 8) StdBoolean) OpAndThen
                 (lal_Identifier ''B'' (ref_ObjectDecl 8) StdBoolean) StdBoolean)] [])
       = Inl TypeError"
    by code_simp
qed

section \<open>The lowering of a case statement\<close>

text \<open>
  C3. The claim has a case statement lower to a split with one branch for each
  alternative, under the guards of the labels. The guard of one integer label is built: an
  equality test. The guard of a range needs \<^verbatim>\<open>irt.bin_ops[ops.AND]\<close>, the guard of several
  labels and the guard of \<^verbatim>\<open>others\<close> need \<^verbatim>\<open>irt.bin_ops[ops.OR]\<close>, which \<^verbatim>\<open>tree.py\<close> does not
  register; and the split is called with one list. No case statement lowers:
  \<^verbatim>\<open>case X is when 1 => Y := 10; when 2 | 3 => Y := 20; when others => Y := 30; end case;\<close>
  raises \<^verbatim>\<open>KeyError\<close>.
\<close>

theorem case_statement_lowering_raises:
  "(\<exists>err. transform_stmt ctx labels (lal_CaseStmt sel alts) st = Inl err)
   \<and> gen_single ctx e (VInt n)
       = Inr (BinExpr e (Operator EQ) (Lit (VInt n) (ev_int (evaluator ctx)))
                (ev_bool (evaluator ctx)))
   \<and> gen_single ctx e (VRange (VInt lo) (VInt hi)) = Inl KeyError
   \<and> gen_case_condition ctx e [VInt n]
       = Inr (BinExpr e (Operator EQ) (Lit (VInt n) (ev_int (evaluator ctx)))
                (ev_bool (evaluator ctx)))
   \<and> gen_case_condition ctx e [VInt n, VInt m] = Inl KeyError
   \<and> transform_stmt ctx_example Map.empty
        (lal_CaseStmt (lal_Identifier ''X'' (ref_ObjectDecl 7) StdInteger)
           [([Choice (lal_IntLiteral ''1'' UniversalInt)],
             [lal_AssignStmt 7 ''Y'' StdInteger (lal_IntLiteral ''10'' UniversalInt)]),
            ([Choice (lal_IntLiteral ''2'' UniversalInt),
              Choice (lal_IntLiteral ''3'' UniversalInt)],
             [lal_AssignStmt 7 ''Y'' StdInteger (lal_IntLiteral ''20'' UniversalInt)]),
            ([OthersDesignator],
             [lal_AssignStmt 7 ''Y'' StdInteger (lal_IntLiteral ''30'' UniversalInt)])])
        (register_ids 7 [''X'', ''Y''] StdInteger initial_lowering)
       = Inl KeyError
   \<and> gen_ir ctx_example
        (lal_SubpBody [lal_ObjectDecl 7 [''X'', ''Y''] StdInteger None]
           [lal_CaseStmt (lal_Identifier ''X'' (ref_ObjectDecl 7) StdInteger)
              [([Choice (lal_IntLiteral ''1'' UniversalInt)],
                [lal_AssignStmt 7 ''Y'' StdInteger (lal_IntLiteral ''10'' UniversalInt)]),
               ([OthersDesignator],
                [lal_AssignStmt 7 ''Y'' StdInteger (lal_IntLiteral ''30'' UniversalInt)])]] [])
       = Inl KeyError"
proof (intro conjI)
  show "\<exists>err. transform_stmt ctx labels (lal_CaseStmt sel alts) st = Inl err"
    by (rule transform_stmt_CaseStmt_raises)
  show "gen_single ctx e (VInt n)
       = Inr (BinExpr e (Operator EQ) (Lit (VInt n) (ev_int (evaluator ctx)))
                (ev_bool (evaluator ctx)))"
    by (simp add: bin_ops_item_def bin_ops_def gen_lit_def)
  show "gen_single ctx e (VRange (VInt lo) (VInt hi)) = Inl KeyError"
    by (simp add: bin_ops_item_def bin_ops_def gen_lit_def)
  show "gen_case_condition ctx e [VInt n]
       = Inr (BinExpr e (Operator EQ) (Lit (VInt n) (ev_int (evaluator ctx)))
                (ev_bool (evaluator ctx)))"
    by (simp add: gen_case_condition_def bin_ops_item_def bin_ops_def gen_lit_def)
  show "gen_case_condition ctx e [VInt n, VInt m] = Inl KeyError"
    by (simp add: gen_case_condition_def bin_ops_item_def bin_ops_def gen_lit_def)
  have vd: "var_decls (register_ids 7 [''X'', ''Y''] StdInteger initial_lowering) (7, ''X'')
              = Some (Variable ''X'' None StdInteger)"
    "var_decls (register_ids 7 [''X'', ''Y''] StdInteger initial_lowering) (7, ''Y'')
              = Some (Variable ''Y'' None StdInteger)"
    by (simp_all add: register_ids_def initial_lowering_def)
  show "transform_stmt ctx_example Map.empty
        (lal_CaseStmt (lal_Identifier ''X'' (ref_ObjectDecl 7) StdInteger)
           [([Choice (lal_IntLiteral ''1'' UniversalInt)],
             [lal_AssignStmt 7 ''Y'' StdInteger (lal_IntLiteral ''10'' UniversalInt)]),
            ([Choice (lal_IntLiteral ''2'' UniversalInt),
              Choice (lal_IntLiteral ''3'' UniversalInt)],
             [lal_AssignStmt 7 ''Y'' StdInteger (lal_IntLiteral ''20'' UniversalInt)]),
            ([OthersDesignator],
             [lal_AssignStmt 7 ''Y'' StdInteger (lal_IntLiteral ''30'' UniversalInt)])])
        (register_ids 7 [''X'', ''Y''] StdInteger initial_lowering)
       = Inl KeyError"
    by (simp add: vd py_int_def digit_val_def py_number_def sys_maxint_def eval_def
        has_others_def gen_case_condition_def gen_lit_def bin_ops_item_def bin_ops_def
        un_ops_item_def un_ops_def)
  show "gen_ir ctx_example
        (lal_SubpBody [lal_ObjectDecl 7 [''X'', ''Y''] StdInteger None]
           [lal_CaseStmt (lal_Identifier ''X'' (ref_ObjectDecl 7) StdInteger)
              [([Choice (lal_IntLiteral ''1'' UniversalInt)],
                [lal_AssignStmt 7 ''Y'' StdInteger (lal_IntLiteral ''10'' UniversalInt)]),
               ([OthersDesignator],
                [lal_AssignStmt 7 ''Y'' StdInteger (lal_IntLiteral ''30'' UniversalInt)])]] [])
       = Inl KeyError"
    by code_simp
qed

section \<open>Labels and gotos of a lowered program\<close>

text \<open>
  C9, as the code has it. Take a subprogram that lowers, whose label statements that the
  lowering reaches are pairwise distinct and whose goto statements that the lowering
  reaches go to such labels. Then every goto of the program has exactly one label
  statement of its target. The labels are made before any statement is lowered, one for
  each label declaration, and the label statement and every goto of a declaration get
  that label. The exit label of a plain loop has a fresh name and comes right after the
  loop; the exit label of a while loop comes after the assumption of the negated
  condition, which follows the loop.
\<close>

theorem goto_targets_have_one_label:
  assumes "gen_ir ctx (lal_SubpBody decls stmts label_decls) = Inr p"
    and "distinct (reached_labels_list stmts)"
    and "set (reached_gotos_list stmts) \<subseteq> set (reached_labels_list stmts)"
  shows "goto_targets_unique p
       \<and> (gen_labels label_decls d = Some lbl \<longrightarrow>
            lbl = Label (snd d) (Some d)
            \<and> transform_stmt ctx (gen_labels label_decls) (lal_Label d) st = Inr ([LabelStmt lbl], st)
            \<and> transform_stmt ctx (gen_labels label_decls) (lal_GotoStmt d) st
                = Inr ([GotoStmt lbl], st))
       \<and> (transform_stmt ctx labels (lal_LoopStmt n body) sta = Inr (loop_out, loop_st) \<longrightarrow>
            (\<exists>loop_stmts.
               loop_out = [LoopStmt loop_stmts,
                           LabelStmt (Label (fst (fresh_name ''exit_loop'' sta)) None)]))
       \<and> (transform_stmt ctx labels (lal_WhileLoopStmt m c wbody) stb = Inr (while_out, while_st)
            \<longrightarrow>
            (\<exists>loop_stmts not_cond nm.
               while_out = [LoopStmt loop_stmts, AssumeStmt not_cond None,
                            LabelStmt (Label nm None)]))"
proof (intro conjI impI)
  obtain out where p: "p = Program out" by (cases p)
  from gen_ir_effect [OF assms(1) [unfolded p]] obtain st' where
    e: "stmts_effect initial_lowering out st'
          (reached_labels_list stmts) (reached_gotos_list stmts)" by blast
  have "count_list (stmts_labels out) l = 1" if "l \<in> set (stmts_gotos out)" for l
    by (rule stmts_effect_goto_targets [OF e _ assms(2,3) that])
       (simp add: initial_lowering_def)
  then show "goto_targets_unique p"
    unfolding p by (simp add: list_all_iff)
next
  assume l: "gen_labels label_decls d = Some lbl"
  from gen_labels_from_decls l show "lbl = Label (snd d) (Some d)"
    unfolding labels_from_decls_def src_label_def by blast
  from l show "transform_stmt ctx (gen_labels label_decls) (lal_Label d) st
                 = Inr ([LabelStmt lbl], st)"
    by simp
  from l show "transform_stmt ctx (gen_labels label_decls) (lal_GotoStmt d) st
                 = Inr ([GotoStmt lbl], st)"
    by simp
next
  assume "transform_stmt ctx labels (lal_LoopStmt n body) sta = Inr (loop_out, loop_st)"
  then show "\<exists>loop_stmts.
               loop_out = [LoopStmt loop_stmts,
                           LabelStmt (Label (fst (fresh_name ''exit_loop'' sta)) None)]"
    by (rule transform_stmt_LoopStmt_Inr) simp
next
  assume "transform_stmt ctx labels (lal_WhileLoopStmt m c wbody) stb = Inr (while_out, while_st)"
  then show "\<exists>loop_stmts not_cond nm.
               while_out = [LoopStmt loop_stmts, AssumeStmt not_cond None,
                            LabelStmt (Label nm None)]"
    by (rule transform_stmt_WhileLoopStmt_Inr) simp
qed

theorem goto_targets_have_one_label_witness:
  "gen_ir ctx_example
     (lal_SubpBody []
        [lal_Label (5, ''L''), lal_LoopStmt 9 [lal_ExitStmt None None], lal_GotoStmt (5, ''L'')]
        [(5, ''L'')])
   = Inr (Program
       [LabelStmt (Label ''L'' (Some (5, ''L''))),
        LoopStmt [GotoStmt (Label ''exit_loop0'' None)],
        LabelStmt (Label ''exit_loop0'' None),
        GotoStmt (Label ''L'' (Some (5, ''L'')))])
   \<and> distinct (reached_labels_list
        [lal_Label (5, ''L''), lal_LoopStmt 9 [lal_ExitStmt None None], lal_GotoStmt (5, ''L'')])
   \<and> set (reached_gotos_list
        [lal_Label (5, ''L''), lal_LoopStmt 9 [lal_ExitStmt None None], lal_GotoStmt (5, ''L'')])
       \<subseteq> set (reached_labels_list
        [lal_Label (5, ''L''), lal_LoopStmt 9 [lal_ExitStmt None None], lal_GotoStmt (5, ''L'')])
   \<and> goto_targets_unique (Program
       [LabelStmt (Label ''L'' (Some (5, ''L''))),
        LoopStmt [GotoStmt (Label ''exit_loop0'' None)],
        LabelStmt (Label ''exit_loop0'' None),
        GotoStmt (Label ''L'' (Some (5, ''L'')))])
   \<and> gen_labels [(5, ''L'')] (5, ''L'') = Some (Label ''L'' (Some (5, ''L'')))
   \<and> transform_stmt ctx_example (gen_labels [(5, ''L'')]) (lal_Label (5, ''L'')) initial_lowering
       = Inr ([LabelStmt (Label ''L'' (Some (5, ''L'')))], initial_lowering)
   \<and> transform_stmt ctx_example (gen_labels [(5, ''L'')]) (lal_GotoStmt (5, ''L''))
         initial_lowering
       = Inr ([GotoStmt (Label ''L'' (Some (5, ''L'')))], initial_lowering)
   \<and> (\<exists>loop_st. transform_stmt ctx_example Map.empty
         (lal_LoopStmt 9 [lal_ExitStmt None None]) initial_lowering
       = Inr ([LoopStmt [GotoStmt (Label ''exit_loop0'' None)],
               LabelStmt (Label ''exit_loop0'' None)], loop_st))
   \<and> (\<exists>loop_stmts.
         [LoopStmt [GotoStmt (Label ''exit_loop0'' None)], LabelStmt (Label ''exit_loop0'' None)]
         = [LoopStmt loop_stmts,
            LabelStmt (Label (fst (fresh_name ''exit_loop'' initial_lowering)) None)])
   \<and> (\<exists>while_st. transform_stmt ctx_example Map.empty
         (lal_WhileLoopStmt 9
            (lal_Identifier ''True'' (ref_EnumLiteralDecl StdBoolean) StdBoolean) [])
         initial_lowering
       = Inr ([LoopStmt [AssumeStmt (Lit (VStr ''True'') StdBoolean) None],
               AssumeStmt (UnExpr (Operator NOT) (Lit (VStr ''True'') StdBoolean) StdBoolean)
                 None,
               LabelStmt (Label ''exit_while_loop0'' None)], while_st))
   \<and> (\<exists>loop_stmts not_cond nm.
         [LoopStmt [AssumeStmt (Lit (VStr ''True'') StdBoolean) None],
          AssumeStmt (UnExpr (Operator NOT) (Lit (VStr ''True'') StdBoolean) StdBoolean) None,
          LabelStmt (Label ''exit_while_loop0'' None)]
         = [LoopStmt loop_stmts, AssumeStmt not_cond None, LabelStmt (Label nm None)])"
  (is "?g \<and> ?d \<and> ?s \<and> ?u \<and> ?l \<and> ?tl \<and> ?tg \<and> ?lp \<and> ?lpc \<and> ?wh \<and> ?whc")
proof -
  have g: ?g by code_simp
  have d: ?d by simp
  have s: ?s by simp
  have l: "gen_labels [(5, ''L'')] (5, ''L'') = Some (Label ''L'' (Some (5, ''L'')))"
    by (simp add: gen_labels_def)
  obtain loop_st where lp: "transform_stmt ctx_example Map.empty
         (lal_LoopStmt 9 [lal_ExitStmt None None]) initial_lowering
       = Inr ([LoopStmt [GotoStmt (Label ''exit_loop0'' None)],
               LabelStmt (Label ''exit_loop0'' None)], loop_st)"
    by (simp add: fresh_name_def get_incr_def initial_lowering_def loop_stack_append_def
        loop_stack_top_def loop_stack_pop_def str_nat.simps digit_char_def Let_def
        un_ops_item_def un_ops_def)
  obtain while_st where wh: "transform_stmt ctx_example Map.empty
         (lal_WhileLoopStmt 9
            (lal_Identifier ''True'' (ref_EnumLiteralDecl StdBoolean) StdBoolean) [])
         initial_lowering
       = Inr ([LoopStmt [AssumeStmt (Lit (VStr ''True'') StdBoolean) None],
               AssumeStmt (UnExpr (Operator NOT) (Lit (VStr ''True'') StdBoolean) StdBoolean)
                 None,
               LabelStmt (Label ''exit_while_loop0'' None)], while_st)"
    by (simp add: fresh_name_def get_incr_def initial_lowering_def loop_stack_append_def
        loop_stack_top_def loop_stack_pop_def str_nat.simps digit_char_def Let_def
        un_ops_item_def un_ops_def)
  note t = goto_targets_have_one_label
         [OF g d s, where d = "(5, ''L'')" and lbl = "Label ''L'' (Some (5, ''L''))"
            and st = initial_lowering and sta = initial_lowering and stb = initial_lowering
            and labels = Map.empty and n = 9 and body = "[lal_ExitStmt None None]" and m = 9
            and c = "lal_Identifier ''True'' (ref_EnumLiteralDecl StdBoolean) StdBoolean"
            and wbody = "[]"
            and loop_out = "[LoopStmt [GotoStmt (Label ''exit_loop0'' None)],
                             LabelStmt (Label ''exit_loop0'' None)]"
            and loop_st = loop_st
            and while_out = "[LoopStmt [AssumeStmt (Lit (VStr ''True'') StdBoolean) None],
               AssumeStmt (UnExpr (Operator NOT) (Lit (VStr ''True'') StdBoolean) StdBoolean)
                 None,
               LabelStmt (Label ''exit_while_loop0'' None)]"
            and while_st = while_st]
  from t have u: ?u by blast
  from t l have tl: ?tl and tg: ?tg by blast+
  from t lp have lpc: ?lpc by blast
  from t wh have whc: ?whc by blast
  from g d s u l tl tg lp lpc wh whc show ?thesis by blast
qed

text \<open>
  The claim C9 puts the exit label of every loop right after the loop and has, in every
  lowered program, a label for every goto. The lowering of
  \<^verbatim>\<open>while X < 3 loop Y := 1; end loop;\<close> has the assumption of the negated condition
  between the loop and its exit label. The lowering of \<^verbatim>\<open>goto L\<close> followed by a for loop
  that holds the label \<open>L\<close> is the goto alone: the body of a for loop is not lowered.
\<close>

theorem goto_targets_counterexample:
  "gen_ir ctx_example
     (lal_SubpBody [lal_ObjectDecl 7 [''X'', ''Y''] StdInteger None]
        [lal_WhileLoopStmt 9
           (lal_BinOp (lal_Identifier ''X'' (ref_ObjectDecl 7) StdInteger) OpLt
              (lal_IntLiteral ''3'' UniversalInt) StdBoolean)
           [lal_AssignStmt 7 ''Y'' StdInteger (lal_IntLiteral ''1'' UniversalInt)]] [])
   = Inr (Program
       [ReadStmt (Identifier (Variable ''X'' None StdInteger) StdInteger),
        ReadStmt (Identifier (Variable ''Y'' None StdInteger) StdInteger),
        LoopStmt
         [AssumeStmt
            (BinExpr (Identifier (Variable ''X'' None StdInteger) StdInteger)
               (Operator LT) (Lit (VInt 3) UniversalInt) StdBoolean) None,
          AssignStmt (Identifier (Variable ''Y'' None StdInteger) StdInteger)
            (Lit (VInt 1) UniversalInt)],
        AssumeStmt
          (UnExpr (Operator NOT)
             (BinExpr (Identifier (Variable ''X'' None StdInteger) StdInteger)
                (Operator LT) (Lit (VInt 3) UniversalInt) StdBoolean) StdBoolean) None,
        LabelStmt (Label ''exit_while_loop0'' None)])
   \<and> gen_ir ctx_example
       (lal_SubpBody []
          [lal_GotoStmt (5, ''L''), lal_ForLoopStmt 9 [lal_Label (5, ''L'')]] [(5, ''L'')])
     = Inr (Program [GotoStmt (Label ''L'' (Some (5, ''L'')))])
   \<and> \<not> goto_targets_unique (Program [GotoStmt (Label ''L'' (Some (5, ''L'')))])"
proof (intro conjI)
  show "gen_ir ctx_example
     (lal_SubpBody [lal_ObjectDecl 7 [''X'', ''Y''] StdInteger None]
        [lal_WhileLoopStmt 9
           (lal_BinOp (lal_Identifier ''X'' (ref_ObjectDecl 7) StdInteger) OpLt
              (lal_IntLiteral ''3'' UniversalInt) StdBoolean)
           [lal_AssignStmt 7 ''Y'' StdInteger (lal_IntLiteral ''1'' UniversalInt)]] [])
   = Inr (Program
       [ReadStmt (Identifier (Variable ''X'' None StdInteger) StdInteger),
        ReadStmt (Identifier (Variable ''Y'' None StdInteger) StdInteger),
        LoopStmt
         [AssumeStmt
            (BinExpr (Identifier (Variable ''X'' None StdInteger) StdInteger)
               (Operator LT) (Lit (VInt 3) UniversalInt) StdBoolean) None,
          AssignStmt (Identifier (Variable ''Y'' None StdInteger) StdInteger)
            (Lit (VInt 1) UniversalInt)],
        AssumeStmt
          (UnExpr (Operator NOT)
             (BinExpr (Identifier (Variable ''X'' None StdInteger) StdInteger)
                (Operator LT) (Lit (VInt 3) UniversalInt) StdBoolean) StdBoolean) None,
        LabelStmt (Label ''exit_while_loop0'' None)])"
    by code_simp
  show "gen_ir ctx_example
       (lal_SubpBody []
          [lal_GotoStmt (5, ''L''), lal_ForLoopStmt 9 [lal_Label (5, ''L'')]] [(5, ''L'')])
     = Inr (Program [GotoStmt (Label ''L'' (Some (5, ''L'')))])"
    by code_simp
  show "\<not> goto_targets_unique (Program [GotoStmt (Label ''L'' (Some (5, ''L'')))])"
    by simp
qed

section \<open>Properties of the universal type normalizer\<close>

lemma eval_BinExpr_cong:
  "eval ev l' = eval ev l \<Longrightarrow> eval ev r' = eval ev r \<Longrightarrow>
   eval ev (BinExpr l' bop r' h) = eval ev (BinExpr l bop r h)"
  by (simp add: eval_def cong: option.case_cong sum.case_cong)

lemma eval_UnExpr_cong:
  "eval ev e' = eval ev e \<Longrightarrow> eval ev (UnExpr uop e' h) = eval ev (UnExpr uop e h)"
  by (simp add: eval_def cong: option.case_cong sum.case_cong)

text \<open>The conversion of an expression keeps what the expression evaluates to.\<close>

lemma normalizer_preserves_eval:
  "try_convert_expr ev e T = Inr e' \<Longrightarrow> eval ev e' = eval ev e"
  "expr_visit ev e = Inr e' \<Longrightarrow> eval ev e' = eval ev e"
proof (induction ev e T and ev e arbitrary: e' and e' rule: try_convert_expr_expr_visit.induct)
  case (1 ev e expected_type)
  show ?case
  proof (cases "eval ev e")
    case (Inl err)
    with "1.prems" have "err = NotConstExprError" and "expr_visit ev e = Inr e'"
      by (auto split: if_splits)
    with "1.IH" Inl show ?thesis by simp
  next
    case (Inr v)
    with "1.prems" show ?thesis by (auto simp: eval_def)
  qed
next
  case (2 ev lhs bop rhs h)
  let ?T = "if has_universal_type ev rhs then type_hint lhs else type_hint rhs"
  from "2.prems" obtain l' r' where l': "try_convert_expr ev lhs ?T = Inr l'"
    and r': "try_convert_expr ev rhs ?T = Inr r'" and e': "e' = BinExpr l' bop r' h"
    by (auto simp: Let_def split: sum.splits)
  have "eval ev l' = eval ev lhs" using "2.IH"(1) [OF refl l'] .
  moreover have "eval ev r' = eval ev rhs" using "2.IH"(2) [OF refl l' r'] .
  ultimately show ?case unfolding e' by (rule eval_BinExpr_cong)
next
  case (3 ev uop e h)
  from "3.prems" obtain e1 where e1: "expr_visit ev e = Inr e1" and e': "e' = UnExpr uop e1 h"
    by (auto split: sum.splits)
  from "3.IH" [OF e1] show ?case unfolding e' by (rule eval_UnExpr_cong)
qed simp_all




section \<open>A second pass of the normalizer\<close>

lemma expr_visit_type_hint: "expr_visit ev e = Inr e' \<Longrightarrow> type_hint e' = type_hint e"
  by (cases e) (auto simp: Let_def split: sum.splits)

lemma try_convert_expr_type_hint:
  "try_convert_expr ev e T = Inr e' \<Longrightarrow>
   type_hint e' = (if \<exists>v. eval ev e = Inr v then T else type_hint e)"
  by (auto simp: expr_visit_type_hint split: sum.splits if_splits)

lemma expected_type_stable:
  assumes l': "try_convert_expr ev l T = Inr l'" and r': "try_convert_expr ev r T = Inr r'"
    and T: "T = (if has_universal_type ev r then type_hint l else type_hint r)"
  shows "(if has_universal_type ev r' then type_hint l' else type_hint r') = T"
proof (cases "has_universal_type ev r")
  case True
  then have T': "T = type_hint l" using T by simp
  have hl: "type_hint l' = type_hint l"
    using try_convert_expr_type_hint [OF l'] T' by simp
  show ?thesis
  proof (cases "\<exists>v. eval ev r = Inr v")
    case ev_r: True
    then have "type_hint r' = T" using try_convert_expr_type_hint [OF r'] by simp
    then show ?thesis using hl T' by simp
  next
    case False
    then have "type_hint r' = type_hint r" using try_convert_expr_type_hint [OF r'] by simp
    then have "has_universal_type ev r'" using True by (simp add: has_universal_type_def)
    then show ?thesis using hl T' by simp
  qed
next
  case False
  then have T': "T = type_hint r" using T by simp
  have hr: "type_hint r' = type_hint r"
    using try_convert_expr_type_hint [OF r'] T' by simp
  then have "\<not> has_universal_type ev r'" using False by (simp add: has_universal_type_def)
  then show ?thesis using hr T' by simp
qed

lemma normalizer_idempotent_expr:
  "try_convert_expr ev e T = Inr e' \<Longrightarrow> try_convert_expr ev e' T = Inr e'"
  "expr_visit ev e = Inr e' \<Longrightarrow> expr_visit ev e' = Inr e'"
proof (induction ev e T and ev e arbitrary: e' and e' rule: try_convert_expr_expr_visit.induct)
  case (1 ev e expected_type)
  show ?case
  proof (cases "eval ev e")
    case (Inl err)
    with "1.prems" have err: "err = NotConstExprError" and v: "expr_visit ev e = Inr e'"
      by (auto split: if_splits)
    have "eval ev e' = Inl NotConstExprError"
      using normalizer_preserves_eval(2) [OF v] Inl err by simp
    moreover have "expr_visit ev e' = Inr e'"
      using "1.IH" [OF Inl err v] .
    ultimately show ?thesis by simp
  next
    case (Inr v)
    with "1.prems" have "e' = Lit v expected_type" by auto
    then show ?thesis by (simp add: eval_def)
  qed
next
  case (2 ev lhs bop rhs h)
  let ?T = "if has_universal_type ev rhs then type_hint lhs else type_hint rhs"
  from "2.prems" obtain l' r' where l': "try_convert_expr ev lhs ?T = Inr l'"
    and r': "try_convert_expr ev rhs ?T = Inr r'" and e': "e' = BinExpr l' bop r' h"
    by (auto simp: Let_def split: sum.splits)
  have T: "(if has_universal_type ev r' then type_hint l' else type_hint r') = ?T"
    by (rule expected_type_stable [OF l' r' refl])
  have "try_convert_expr ev l' ?T = Inr l'" using "2.IH"(1) [OF refl l'] .
  moreover have "try_convert_expr ev r' ?T = Inr r'" using "2.IH"(2) [OF refl l' r'] .
  ultimately show ?case unfolding e' using T by (simp add: Let_def)
next
  case (3 ev uop e h)
  from "3.prems" obtain e1 where e1: "expr_visit ev e = Inr e1" and e': "e' = UnExpr uop e1 h"
    by (auto split: sum.splits)
  from "3.IH" [OF e1] show ?case unfolding e' by simp
next
  case (4 ev v h)
  then show ?case by auto
next
  case (5 ev v h)
  then show ?case by auto
qed

lemma stmts_visit_idempotent_aux:
  assumes "\<And>s s'. s \<in> set ss \<Longrightarrow> stmt_visit ev s = Inr s' \<Longrightarrow> stmt_visit ev s' = Inr s'"
  shows "stmts_visit ev ss = Inr ss' \<Longrightarrow> stmts_visit ev ss' = Inr ss'"
  using assms
proof (induction ss arbitrary: ss')
  case Nil
  then show ?case by simp
next
  case (Cons s ss)
  from Cons.prems(1) obtain s1 ss1 where s1: "stmt_visit ev s = Inr s1"
    and ss1: "stmts_visit ev ss = Inr ss1" and ss': "ss' = s1 # ss1"
    by (auto split: sum.splits)
  have "stmt_visit ev s1 = Inr s1" using Cons.prems(2) [OF _ s1] by simp
  moreover have "stmts_visit ev ss1 = Inr ss1"
  proof (rule Cons.IH [OF ss1])
    fix x x'
    assume "x \<in> set ss" and "stmt_visit ev x = Inr x'"
    then show "stmt_visit ev x' = Inr x'" using Cons.prems(2) [of x x'] by simp
  qed
  ultimately show ?case unfolding ss' by simp
qed

lemma normalizer_idempotent_stmt:
  "\<forall>s'. stmt_visit ev s = Inr s' \<longrightarrow> stmt_visit ev s' = Inr s'"
proof (induction s)
  case (AssignStmt var e)
  show ?case by simp
next
  case (SplitStmt fst_stmts snd_stmts)
  show ?case
  proof (intro allI impI)
    fix s'
    assume "stmt_visit ev (SplitStmt fst_stmts snd_stmts) = Inr s'"
    then obtain a b where a: "stmts_visit ev fst_stmts = Inr a"
      and b: "stmts_visit ev snd_stmts = Inr b" and s': "s' = SplitStmt a b"
      by (auto split: sum.splits)
    have "stmts_visit ev a = Inr a"
      using SplitStmt(1) by (intro stmts_visit_idempotent_aux [OF _ a]) blast
    moreover have "stmts_visit ev b = Inr b"
      using SplitStmt(2) by (intro stmts_visit_idempotent_aux [OF _ b]) blast
    ultimately show "stmt_visit ev s' = Inr s'" unfolding s' by simp
  qed
next
  case (LoopStmt stmts)
  show ?case
  proof (intro allI impI)
    fix s'
    assume "stmt_visit ev (LoopStmt stmts) = Inr s'"
    then obtain a where a: "stmts_visit ev stmts = Inr a" and s': "s' = LoopStmt a"
      by (auto split: sum.splits)
    have "stmts_visit ev a = Inr a"
      using LoopStmt by (intro stmts_visit_idempotent_aux [OF _ a]) blast
    then show "stmt_visit ev s' = Inr s'" unfolding s' by simp
  qed
next
  case (ReadStmt var)
  show ?case by auto
next
  case (UseStmt var)
  show ?case by auto
next
  case (AssumeStmt e purpose)
  show ?case
  proof (intro allI impI)
    fix s'
    assume "stmt_visit ev (AssumeStmt e purpose) = Inr s'"
    then obtain c where c: "try_convert_expr ev e (ev_bool ev) = Inr c"
      and s': "s' = AssumeStmt c purpose"
      by (auto simp del: try_convert_expr.simps split: sum.splits)
    from normalizer_idempotent_expr(1) [OF c] show "stmt_visit ev s' = Inr s'"
      unfolding s' by (simp del: try_convert_expr.simps)
  qed
next
  case (GotoStmt lbl)
  show ?case by auto
next
  case (LabelStmt lbl)
  show ?case by auto
qed

text \<open>When the normalizer returns a tree, a second pass returns the same tree.\<close>

lemma normalizer_idempotent:
  "ConvertUniversalTypes ev p = Inr p' \<Longrightarrow> ConvertUniversalTypes ev p' = Inr p'"
proof (cases p)
  case (Program stmts)
  assume "ConvertUniversalTypes ev p = Inr p'"
  with Program obtain a where a: "stmts_visit ev stmts = Inr a" and p': "p' = Program a"
    by (auto split: sum.splits)
  have "stmts_visit ev a = Inr a"
    using normalizer_idempotent_stmt by (intro stmts_visit_idempotent_aux [OF _ a]) blast
  then show ?thesis unfolding p' by simp
qed

text \<open>
  C7. The claim has no universal type left after one pass over a lowered program, and a
  second pass that changes nothing. A second pass changes nothing when the first one
  returns a tree (\<open>normalizer_idempotent\<close>). The first pass returns no tree for a program
  with an assignment: \<^verbatim>\<open>visit_assign\<close> reads \<^verbatim>\<open>assign.id\<close>, which an assignment of \<^verbatim>\<open>tree.py\<close>
  does not have, and raises \<^verbatim>\<open>AttributeError\<close>. The subprogram
  \<^verbatim>\<open>X : Integer; begin X := 1; end\<close> lowers to the read of \<open>X\<close> and the assignment of the
  literal \<open>1\<close> of universal integer type; the normalizer fails on it, and so does
  \<^verbatim>\<open>extract_programs\<close> on a unit with this subprogram.
\<close>

theorem normalizer_raises_on_assignment:
  "stmt_visit ev (AssignStmt var e) = Inl AttributeError
   \<and> gen_ir ctx_example
        (lal_SubpBody [lal_ObjectDecl 7 [''X''] StdInteger None]
           [lal_AssignStmt 7 ''X'' StdInteger (lal_IntLiteral ''1'' UniversalInt)] [])
       = Inr (Program
                [ReadStmt (Identifier (Variable ''X'' None StdInteger) StdInteger),
                 AssignStmt (Identifier (Variable ''X'' None StdInteger) StdInteger)
                   (Lit (VInt 1) UniversalInt)])
   \<and> ConvertUniversalTypes (evaluator ctx_example)
        (Program
           [ReadStmt (Identifier (Variable ''X'' None StdInteger) StdInteger),
            AssignStmt (Identifier (Variable ''X'' None StdInteger) StdInteger)
              (Lit (VInt 1) UniversalInt)])
       = Inl AttributeError
   \<and> has_universal_type (evaluator ctx_example) (Lit (VInt 1) UniversalInt)
   \<and> extract_programs ctx_example
        \<lparr>root = Some [lal_SubpBody [lal_ObjectDecl 7 [''X''] StdInteger None]
                        [lal_AssignStmt 7 ''X'' StdInteger (lal_IntLiteral ''1'' UniversalInt)] []],
         diagnostics = []\<rparr>
       = Inl AttributeError"
proof (intro conjI)
  show "stmt_visit ev (AssignStmt var e) = Inl AttributeError" by simp
  show g: "gen_ir ctx_example
        (lal_SubpBody [lal_ObjectDecl 7 [''X''] StdInteger None]
           [lal_AssignStmt 7 ''X'' StdInteger (lal_IntLiteral ''1'' UniversalInt)] [])
       = Inr (Program
                [ReadStmt (Identifier (Variable ''X'' None StdInteger) StdInteger),
                 AssignStmt (Identifier (Variable ''X'' None StdInteger) StdInteger)
                   (Lit (VInt 1) UniversalInt)])"
    by code_simp
  show c: "ConvertUniversalTypes (evaluator ctx_example)
        (Program
           [ReadStmt (Identifier (Variable ''X'' None StdInteger) StdInteger),
            AssignStmt (Identifier (Variable ''X'' None StdInteger) StdInteger)
              (Lit (VInt 1) UniversalInt)])
       = Inl AttributeError"
    by simp
  show "has_universal_type (evaluator ctx_example) (Lit (VInt 1) UniversalInt)"
    by (simp add: has_universal_type_def ctx_example_def new_context_def
        ExtractionContext_evaluator_def)
  show "extract_programs ctx_example
        \<lparr>root = Some [lal_SubpBody [lal_ObjectDecl 7 [''X''] StdInteger None]
                        [lal_AssignStmt 7 ''X'' StdInteger (lal_IntLiteral ''1'' UniversalInt)] []],
         diagnostics = []\<rparr>
       = Inl AttributeError"
    unfolding extract_programs_def using g c
    by (simp del: gen_ir.simps ConvertUniversalTypes.simps)
qed

end
